theory Spec2Isabelle
  imports Complex_Main "HOL-Library.Sublist"
begin

section \<open>Shared data: errors, venues and quotes\<close>

text \<open>
  A thrown JavaScript value.  The worker only ever renders it with \<^verbatim>\<open>String(err)\<close>,
  so an error is known by that rendering (\<^verbatim>\<open>'Error: ...'\<close>, \<^verbatim>\<open>'TypeError: ...'\<close>);
  \<open>Undefined\<close> is the value thrown by \<^verbatim>\<open>throw lastErr\<close> in \<^verbatim>\<open>retry\<close> when the loop body
  never ran.
\<close>

datatype error = Error string | Undefined

fun String_of :: "error \<Rightarrow> string" where
  "String_of (Error s) = s"
| "String_of Undefined = ''undefined''"

text \<open>
  \<^verbatim>\<open>type Quote = { dex: 'meteora'|'raydium'|'mock', outAmountBn: BN, details: any }\<close>
  (dexRouter.ts, line 8).  A \<^verbatim>\<open>BN\<close> is an arbitrary-precision signed integer, hence \<open>int\<close>.
  The \<^verbatim>\<open>details\<close> payload is opaque: either the marker \<^verbatim>\<open>{ simulated: true }\<close> or
  whatever the venue SDK produced, kept as text.
\<close>

datatype dex = Meteora | Raydium | Mock

datatype details = Simulated | Venue_details string

record quote =
  dex :: dex
  outAmountBn :: int
  details :: details

text \<open>
  \<^verbatim>\<open>BN.prototype.div\<close> of bn.js: division truncated towards zero.  Every divisor in the
  modelled code is the literal 10000, so the assertion of bn.js against a zero divisor
  is never reached.
\<close>

definition bn_div :: "int \<Rightarrow> int \<Rightarrow> int" where
  "bn_div a b = sgn a * sgn b * (\<bar>a\<bar> div \<bar>b\<bar>)"

text \<open>
  JavaScript truthiness of an optional string, as tested by
  \<^verbatim>\<open>if (meteoraPoolAddress)\<close>: \<^verbatim>\<open>undefined\<close> and the empty string are falsy.
\<close>

fun truthy :: "string option \<Rightarrow> bool" where
  "truthy None = False"
| "truthy (Some s) = (s \<noteq> [])"

section \<open>The router: \<^verbatim>\<open>getBestQuote\<close> (dexRouter.ts, lines 117--177)\<close>

text \<open>
  The parameters of \<^verbatim>\<open>getBestQuote\<close> without the RPC connection.  \<^verbatim>\<open>tokenIn\<close> is typed
  \<^verbatim>\<open>string\<close> but is read from an untyped job payload and compared with \<^verbatim>\<open>undefined\<close>
  in \<^verbatim>\<open>executeSwap\<close>, so it is optional here.
\<close>

record quote_params =
  amountInBn :: int
  tokenIn :: "string option"
  tokenOut :: "string option"
  meteoraPoolAddress :: "string option"
  raydiumPoolId :: "string option"

text \<open>
  What the router module cannot decide by itself.  \<open>envUseMock\<close> is the result of the
  function of that name (the \<^verbatim>\<open>USE_MOCK\<close> environment flag).  The venue SDKs are
  opaque capabilities: for the arguments of the call (pool, input mint, amount) they
  either throw or yield a result.  For a quote the result is an output amount and a
  payload; for a swap it is the transaction id and the executed output amount, either
  of which the code allows to be \<^verbatim>\<open>null\<close>.  \<open>now\<close> renders \<^verbatim>\<open>Date.now()\<close>;
  \<open>createWrappedNativeAccount\<close> and \<open>closeAccount\<close> are the two SPL-token calls of
  solanaHelpers.ts, \<open>initSdk\<close> the Raydium loader (\<open>None\<close>: it did not throw).
\<close>

record router_env =
  envUseMock :: bool
  meteora_sdk :: "string \<Rightarrow> string option \<Rightarrow> int \<Rightarrow> error + (int \<times> string)"
  raydium_sdk :: "string \<Rightarrow> string option \<Rightarrow> int \<Rightarrow> error + (int \<times> string)"
  now :: string
  createWrappedNativeAccount :: "int \<Rightarrow> error + string"
  closeAccount :: "string \<Rightarrow> error option"
  meteora_swap :: "string \<Rightarrow> string option \<Rightarrow> int \<Rightarrow> error + (string option \<times> int option)"
  initSdk :: "error option"
  raydium_swap :: "string \<Rightarrow> string option \<Rightarrow> int \<Rightarrow> error + (string option \<times> int option)"

text \<open>\<^verbatim>\<open>getMeteoraQuote\<close> (lines 17--38): rethrows an SDK failure, otherwise tags the
  result with \<^verbatim>\<open>dex: 'meteora'\<close>.\<close>

definition getMeteoraQuote :: "router_env \<Rightarrow> string \<Rightarrow> string option \<Rightarrow> int \<Rightarrow> error + quote" where
  "getMeteoraQuote env poolAddress inputMint amountIn =
     (case meteora_sdk env poolAddress inputMint amountIn of
        Inl e \<Rightarrow> Inl e
      | Inr (outBn, raw) \<Rightarrow> Inr \<lparr>dex = Meteora, outAmountBn = outBn, details = Venue_details raw\<rparr>)"

text \<open>\<^verbatim>\<open>getRaydiumQuote\<close> (lines 41--115): every returning path yields
  \<^verbatim>\<open>dex: 'raydium'\<close>; the pool read and the curve computation are the opaque SDK.\<close>

definition getRaydiumQuote :: "router_env \<Rightarrow> string \<Rightarrow> string option \<Rightarrow> int \<Rightarrow> error + quote" where
  "getRaydiumQuote env poolId inputMint amountIn =
     (case raydium_sdk env poolId inputMint amountIn of
        Inl e \<Rightarrow> Inl e
      | Inr (outBn, raw) \<Rightarrow> Inr \<lparr>dex = Raydium, outAmountBn = outBn, details = Venue_details raw\<rparr>)"

text \<open>The synthetic quote of lines 128--130 and 159--161 (the same expression twice).\<close>

definition mock_quote :: "int \<Rightarrow> quote" where
  "mock_quote amountIn =
     \<lparr>dex = Mock, outAmountBn = bn_div (amountIn * 9949) 10000, details = Simulated\<rparr>"

text \<open>
  Lines 133--155: the quotes array.  Meteora is queried first, then Raydium; each call
  sits in its own \<^verbatim>\<open>try/catch\<close> whose handler only logs, so a throwing venue pushes
  nothing.
\<close>

definition collect_quotes :: "router_env \<Rightarrow> quote_params \<Rightarrow> quote list" where
  "collect_quotes env params =
     (let quotes0 = [];
          quotes1 =
            (if truthy (meteoraPoolAddress params) then
               (case getMeteoraQuote env (the (meteoraPoolAddress params)) (tokenIn params)
                       (amountInBn params) of
                  Inr q \<Rightarrow> quotes0 @ [q]
                | Inl e \<Rightarrow> quotes0)
             else quotes0);
          quotes2 =
            (if truthy (raydiumPoolId params) then
               (case getRaydiumQuote env (the (raydiumPoolId params)) (tokenIn params)
                       (amountInBn params) of
                  Inr q \<Rightarrow> quotes1 @ [q]
                | Inl e \<Rightarrow> quotes1)
             else quotes1)
      in quotes2)"

text \<open>The comparator of lines 168--172: descending by output amount, 0 on a tie.\<close>

definition cmp_quotes :: "quote \<Rightarrow> quote \<Rightarrow> int" where
  "cmp_quotes a b =
     (let A = outAmountBn a; B = outAmountBn b
      in if A = B then 0 else (if A > B then - 1 else 1))"

text \<open>
  \<^verbatim>\<open>Array.prototype.sort\<close> with a comparator.  ECMAScript (2019 and later) requires the
  sort to be stable; for a consistent comparator every stable sort yields the same
  array, computed here by insertion from the right: an element goes in front of the
  first element it does not compare greater than.
\<close>

fun insert_by :: "('a \<Rightarrow> 'a \<Rightarrow> int) \<Rightarrow> 'a \<Rightarrow> 'a list \<Rightarrow> 'a list" where
  "insert_by cmp x [] = [x]"
| "insert_by cmp x (y # ys) =
     (if cmp x y \<le> 0 then x # y # ys else y # insert_by cmp x ys)"

definition array_sort :: "('a \<Rightarrow> 'a \<Rightarrow> int) \<Rightarrow> 'a list \<Rightarrow> 'a list" where
  "array_sort cmp xs = foldr (insert_by cmp) xs []"

text \<open>
  \<^verbatim>\<open>getBestQuote\<close>.  \<^verbatim>\<open>quotes[0]\<close> of an empty array would be \<^verbatim>\<open>undefined\<close> and the
  access \<^verbatim>\<open>chosen.dex\<close> a \<^verbatim>\<open>TypeError\<close>; the branch is kept so that returning a quote is
  something to prove.
\<close>

definition getBestQuote :: "router_env \<Rightarrow> quote_params \<Rightarrow> error + quote" where
  "getBestQuote env params =
     (if envUseMock env then Inr (mock_quote (amountInBn params))
      else
        let quotes = collect_quotes env params
        in if length quotes = 0 then Inr (mock_quote (amountInBn params))
           else (case array_sort cmp_quotes quotes of
                   [] \<Rightarrow> Inl (Error ''TypeError: Cannot read properties of undefined'')
                 | chosen # rest \<Rightarrow> Inr chosen))"

section \<open>The execution step: \<^verbatim>\<open>executeSwap\<close> (dexRouter.ts, lines 179--334)\<close>

text \<open>
  The on-chain account operations the execution step performs around the swap, in the
  order they are issued.  \<open>CloseAccount a ok\<close> records that the cleanup function called
  \<^verbatim>\<open>closeAccount\<close> on \<open>a\<close> and whether that call went through.
\<close>

datatype account_effect = CreateWrappedNativeAccount string | CloseAccount string bool

text \<open>\<^verbatim>\<open>WSOL_MINT = NATIVE_MINT.toBase58()\<close> (solanaHelpers.ts, line 35).\<close>

definition WSOL_MINT :: string where
  "WSOL_MINT = ''So11111111111111111111111111111111111111112''"

text \<open>
  \<^verbatim>\<open>wrapSOLAndGetCleanup\<close> (solanaHelpers.ts, lines 19--33).  The creation either throws,
  and then no account and no cleanup function exist, or returns the new account.  The
  returned closure \<^verbatim>\<open>cleanup\<close> is determined by the account it closes; it swallows a
  failure of \<^verbatim>\<open>closeAccount\<close> (lines 25--30), so it never throws.
\<close>

definition wrapSOLAndGetCleanup :: "router_env \<Rightarrow> int \<Rightarrow> (error + string) \<times> account_effect list" where
  "wrapSOLAndGetCleanup env lamports =
     (case createWrappedNativeAccount env lamports of
        Inl e \<Rightarrow> (Inl e, [])
      | Inr tokenAccountPub \<Rightarrow> (Inr tokenAccountPub, [CreateWrappedNativeAccount tokenAccountPub]))"

definition cleanup :: "router_env \<Rightarrow> string \<Rightarrow> account_effect list" where
  "cleanup env tokenAccountPub =
     (case closeAccount env tokenAccountPub of
        None \<Rightarrow> [CloseAccount tokenAccountPub True]
      | Some err \<Rightarrow> [CloseAccount tokenAccountPub False])"

record swap_params = quote_params +
  p_dex :: dex

record swap_result =
  txId :: "string option"
  executedOutBn :: "int option"
  res_dex :: dex
  simulated :: bool

text \<open>
  Lines 217--328, the body of the \<^verbatim>\<open>try\<close> after the wrapping: the Meteora branch when
  \<^verbatim>\<open>params.dex === 'meteora'\<close>, the Raydium branch otherwise.  The slippage percentage
  is a floating-point number handed to the SDK and is part of the opaque swap.
\<close>

definition swap_on_venue :: "router_env \<Rightarrow> swap_params \<Rightarrow> string option \<Rightarrow> error + swap_result" where
  "swap_on_venue env params realTokenIn =
     (if p_dex params = Meteora then
        (if \<not> truthy (meteoraPoolAddress params)
         then Inl (Error ''Error: meteoraPoolAddress is required for meteora execution'')
         else
           (case meteora_swap env (the (meteoraPoolAddress params)) realTokenIn (amountInBn params) of
              Inl e \<Rightarrow> Inl e
            | Inr (tx, executed) \<Rightarrow>
                Inr \<lparr>txId = tx, executedOutBn = executed, res_dex = Meteora, simulated = False\<rparr>))
      else
        (case initSdk env of
           Some e \<Rightarrow> Inl e
         | None \<Rightarrow>
            (if \<not> truthy (raydiumPoolId params)
             then Inl (Error ''Error: raydiumPoolId is required for raydium execution'')
             else
               (case raydium_swap env (the (raydiumPoolId params)) realTokenIn (amountInBn params) of
                  Inl e \<Rightarrow> Inl e
                | Inr (tx, executed) \<Rightarrow>
                    Inr \<lparr>txId = tx, executedOutBn = executed, res_dex = Raydium, simulated = False\<rparr>))))"

text \<open>
  \<^verbatim>\<open>executeSwap\<close>.  The result is the returned value or the thrown error, together with
  the account operations issued.  \<open>cleanupWrapped\<close> is the variable of line 203: \<open>None\<close>
  for \<^verbatim>\<open>null\<close>, otherwise the account the closure closes.  The \<^verbatim>\<open>finally\<close> block of
  lines 329--333 runs after the body whatever its outcome; the \<^verbatim>\<open>.catch\<close> there only
  logs.
\<close>

definition executeSwap :: "router_env \<Rightarrow> swap_params \<Rightarrow> (error + swap_result) \<times> account_effect list" where
  "executeSwap env params =
     (if envUseMock env \<or> p_dex params = Mock then
        (Inr \<lparr>txId = Some (''MOCK-'' @ now env),
              executedOutBn = Some (bn_div (amountInBn params * 9949) 10000),
              res_dex = Mock, simulated = True\<rparr>, [])
      else
        let (wrapped, log1) =
              (if tokenIn params = Some WSOL_MINT then (Inr (None, tokenIn params), [])
               else if tokenIn params = Some ''SOL'' \<or> tokenIn params = None then
                 (case wrapSOLAndGetCleanup env (amountInBn params) of
                    (Inl e, l) \<Rightarrow> (Inl e, l)
                  | (Inr tokenAccount, l) \<Rightarrow> (Inr (Some tokenAccount, Some tokenAccount), l))
               else (Inr (None, tokenIn params), []));
            cleanupWrapped = (case wrapped of Inl e \<Rightarrow> None | Inr (c, realTokenIn) \<Rightarrow> c);
            body =
              (case wrapped of
                 Inl e \<Rightarrow> Inl e
               | Inr (c, realTokenIn) \<Rightarrow> swap_on_venue env params realTokenIn);
            log2 = (case cleanupWrapped of None \<Rightarrow> [] | Some a \<Rightarrow> cleanup env a)
        in (body, log1 @ log2))"

section \<open>The subscription registry (websocket/wsManager.ts, lines 10--54)\<close>

text \<open>The module \<^verbatim>\<open>websocket/wsManager.ts\<close> is the source file \<^verbatim>\<open>src/unnamed/part_001\<close>.\<close>

text \<open>
  A WebSocket is known by its identity only.  \<open>subscribers\<close> is the module-level
  \<^verbatim>\<open>Map<string, Set<WebSocket>>\<close>; \<open>sub_cmds\<close> lists the commands the module has sent on
  its subscriber connection \<^verbatim>\<open>sub\<close>, oldest first.  Both calls are fire-and-forget: their
  promise is only logged.
\<close>

type_synonym ws = nat

datatype redis_cmd = SUBSCRIBE string | UNSUBSCRIBE string

record registry =
  subscribers :: "string \<rightharpoonup> ws set"
  sub_cmds :: "redis_cmd list"

definition channel_of :: "string \<Rightarrow> string" where
  "channel_of orderId = ''order:'' @ orderId"

definition subscribeSocket :: "string \<Rightarrow> ws \<Rightarrow> registry \<Rightarrow> registry" where
  "subscribeSocket orderId sock r =
     (case subscribers r orderId of
        None \<Rightarrow>
          r\<lparr>subscribers := (subscribers r)(orderId \<mapsto> {sock}),
            sub_cmds := sub_cmds r @ [SUBSCRIBE (channel_of orderId)]\<rparr>
      | Some s \<Rightarrow> r\<lparr>subscribers := (subscribers r)(orderId \<mapsto> insert sock s)\<rparr>)"

definition unsubscribeSocket :: "string \<Rightarrow> ws \<Rightarrow> registry \<Rightarrow> registry" where
  "unsubscribeSocket orderId sock r =
     (case subscribers r orderId of
        None \<Rightarrow> r
      | Some s \<Rightarrow>
          (if s - {sock} = {} then
             r\<lparr>subscribers := (subscribers r)(orderId := None),
               sub_cmds := sub_cmds r @ [UNSUBSCRIBE (channel_of orderId)]\<rparr>
           else r\<lparr>subscribers := (subscribers r)(orderId \<mapsto> s - {sock})\<rparr>))"

text \<open>
  The channels the subscriber connection is subscribed to once the server has processed
  the commands in the order sent: Redis adds a channel on SUBSCRIBE and drops it on
  UNSUBSCRIBE.
\<close>

fun redis_step :: "string set \<Rightarrow> redis_cmd \<Rightarrow> string set" where
  "redis_step chans (SUBSCRIBE ch) = insert ch chans"
| "redis_step chans (UNSUBSCRIBE ch) = chans - {ch}"

definition upstream :: "redis_cmd list \<Rightarrow> string set" where
  "upstream cmds = foldl redis_step {} cmds"

section \<open>Persistence (config/db.ts)\<close>

text \<open>The module \<^verbatim>\<open>config/db.ts\<close> is the second part of the source file
  \<^verbatim>\<open>src/src/server.ts\<close> (from line 220 on); line numbers are those of that file.\<close>

text \<open>
  The lifecycle statuses.  In the source they are the string literals \<^verbatim>\<open>'pending'\<close>,
  \<^verbatim>\<open>'routing'\<close>, \<^verbatim>\<open>'building'\<close>, \<^verbatim>\<open>'submitted'\<close>, \<^verbatim>\<open>'confirmed'\<close> and \<^verbatim>\<open>'failed'\<close>.
\<close>

datatype order_status = Pending | Routing | Building | Submitted | Confirmed | Failed

text \<open>
  A JSON value as far as the worker builds one: a string, the decimal rendering of an
  integer (\<^verbatim>\<open>bn.toString()\<close>), a venue name, or a quote's payload.  A JSON object is a
  finite map from keys to values.
\<close>

datatype json = JText string | JDecimal int | JDex dex | JDetails details

type_synonym json_object = "string \<rightharpoonup> json"

text \<open>
  The columns of \<^verbatim>\<open>"order-engine".orders\<close> that the worker writes
  (postgres_init.sql); every one of them is nullable.  \<^verbatim>\<open>executed_price\<close> receives
  \<^verbatim>\<open>Number(bn.toString())\<close>, which is the integer itself below \<open>2^53\<close>; no statement
  below depends on its value.
\<close>

record order_row =
  status :: "order_status option"
  attempts :: "int option"
  error :: "string option"
  tx_hash :: "string option"
  executed_price :: "int option"
  routing_info :: "json_object option"

type_synonym orders = "string \<rightharpoonup> order_row"

text \<open>SQL \<^verbatim>\<open>COALESCE(x, d)\<close> and the \<^verbatim>\<open>||\<close> of two \<^verbatim>\<open>jsonb\<close> objects (keys of the right
  operand win).\<close>

fun COALESCE :: "'a option \<Rightarrow> 'a \<Rightarrow> 'a" where
  "COALESCE None d = d"
| "COALESCE (Some x) d = x"

definition jsonb_concat :: "json_object \<Rightarrow> json_object \<Rightarrow> json_object" where
  "jsonb_concat a b = a ++ b"

text \<open>
  The \<^verbatim>\<open>UPDATE\<close> of \<^verbatim>\<open>updateOrderStatus\<close> (lines 298--308) with
  its parameters \<open>$1\<close> to \<open>$7\<close>: it rewrites the row whose id is \<open>$1\<close> and touches nothing
  when there is none.
\<close>

definition update_status_sql ::
  "string \<Rightarrow> order_status \<Rightarrow> int \<Rightarrow> string option \<Rightarrow> string option \<Rightarrow> int option \<Rightarrow> json_object
     \<Rightarrow> orders \<Rightarrow> orders" where
  "update_status_sql p1 p2 p3 p4 p5 p6 p7 tbl =
     (case tbl p1 of
        None \<Rightarrow> tbl
      | Some row \<Rightarrow>
          tbl(p1 \<mapsto> row\<lparr>status := Some p2,
                          attempts := Some (COALESCE (attempts row) 0 + p3),
                          error := p4,
                          tx_hash := p5,
                          executed_price := p6,
                          routing_info :=
                            Some (jsonb_concat (COALESCE (routing_info row) Map.empty) p7)\<rparr>))"

text \<open>The \<^verbatim>\<open>UPDATE\<close> of \<^verbatim>\<open>setRoutingInfo\<close> (line 315): \<^verbatim>\<open>SET routing_info = $2::jsonb\<close>.
  The worker always passes an object.\<close>

definition set_routing_sql :: "string \<Rightarrow> json_object \<Rightarrow> orders \<Rightarrow> orders" where
  "set_routing_sql p1 p2 tbl =
     (case tbl p1 of
        None \<Rightarrow> tbl
      | Some row \<Rightarrow> tbl(p1 \<mapsto> row\<lparr>routing_info := Some p2\<rparr>))"

section \<open>Effects: the world the worker acts on\<close>

text \<open>
  A lifecycle event as published (\<^verbatim>\<open>timestamp\<close> and \<^verbatim>\<open>meta\<close> left out).
  \<open>ev_executedOut\<close> stands for the decimal string of the amount.
\<close>

record event =
  ev_orderId :: string
  ev_status :: order_status
  ev_dex :: "dex option"
  ev_txHash :: "string option"
  ev_executedOut :: "int option"
  ev_error :: "string option"

text \<open>
  The state outside the worker process: the orders table, the messages the event bus
  has accepted (channel and payload, oldest first), the account operations issued on
  chain, and how many \<^verbatim>\<open>pub.publish\<close> and \<^verbatim>\<open>pool.query\<close> calls have been made so far.
\<close>

record world =
  orders_tbl :: orders
  bus :: "(string \<times> event) list"
  chain :: "account_effect list"
  pub_calls :: nat
  query_calls :: nat

text \<open>
  The environment of a worker run.  \<open>publish_fails k\<close> and \<open>query_fails k\<close> say whether
  the \<open>k\<close>-th call of \<^verbatim>\<open>pub.publish\<close>, respectively \<^verbatim>\<open>pool.query\<close>, rejects, and with
  which error.  A rejected call has no effect on the bus or the table.
  \<open>setup_fails\<close> is the outcome of lines 36--38 of worker.ts (the RPC connection and the
  wallet key read from the process environment).
\<close>

record worker_env =
  router :: router_env
  publish_fails :: "nat \<Rightarrow> error option"
  query_fails :: "nat \<Rightarrow> error option"
  setup_fails :: "error option"
  POOL_ADDRESS :: "string option"
  POOL_ID :: "string option"

text \<open>
  An asynchronous function: from a world to a returned value or a thrown error, and the
  world after.  Effects made before a throw stay.
\<close>

type_synonym 'a io = "world \<Rightarrow> (error + 'a) \<times> world"

definition io_return :: "'a \<Rightarrow> 'a io" where
  "io_return v w = (Inr v, w)"

definition io_throw :: "error \<Rightarrow> 'a io" where
  "io_throw e w = (Inl e, w)"

text \<open>\<^verbatim>\<open>await f; g\<close>: a throw of \<open>f\<close> skips \<open>g\<close>.\<close>

definition io_bind :: "'a io \<Rightarrow> ('a \<Rightarrow> 'b io) \<Rightarrow> 'b io" where
  "io_bind f g w = (case f w of (Inl e, w1) \<Rightarrow> (Inl e, w1) | (Inr v, w1) \<Rightarrow> g v w1)"

text \<open>\<^verbatim>\<open>try { f } catch (err) { h }\<close>.\<close>

definition try_catch :: "'a io \<Rightarrow> (error \<Rightarrow> 'a io) \<Rightarrow> 'a io" where
  "try_catch f h w = (case f w of (Inl e, w1) \<Rightarrow> h e w1 | (Inr v, w1) \<Rightarrow> (Inr v, w1))"

text \<open>
  \<^verbatim>\<open>publishOrderUpdate\<close> (wsManager.ts, lines 56--68): publishes on the order's channel;
  the \<^verbatim>\<open>catch\<close> logs and rethrows.
\<close>

definition publishOrderUpdate :: "worker_env \<Rightarrow> string \<Rightarrow> event \<Rightarrow> unit io" where
  "publishOrderUpdate env orderId payload w =
     (let k = pub_calls w; w1 = w\<lparr>pub_calls := Suc k\<rparr>
      in case publish_fails env k of
           None \<Rightarrow> (Inr (), w1\<lparr>bus := bus w1 @ [(channel_of orderId, payload)]\<rparr>)
         | Some e \<Rightarrow> (Inl e, w1))"

text \<open>One \<^verbatim>\<open>pool.query\<close> with a statement that acts on the orders table.\<close>

definition pool_query :: "worker_env \<Rightarrow> (orders \<Rightarrow> orders) \<Rightarrow> unit io" where
  "pool_query env stmt w =
     (let k = query_calls w; w1 = w\<lparr>query_calls := Suc k\<rparr>
      in case query_fails env k of
           None \<Rightarrow> (Inr (), w1\<lparr>orders_tbl := stmt (orders_tbl w1)\<rparr>)
         | Some e \<Rightarrow> (Inl e, w1))"

text \<open>
  \<^verbatim>\<open>retry(fn, attempts, delayMs)\<close> (lines 238--251).  The loop
  runs \<open>fn\<close> until it returns or \<open>attempts\<close> tries are used up, then throws the last
  error; the delays between tries are not modelled.
\<close>

primrec retry_loop :: "nat \<Rightarrow> error \<Rightarrow> 'a io \<Rightarrow> 'a io" where
  "retry_loop 0 lastErr fn w = (Inl lastErr, w)"
| "retry_loop (Suc n) lastErr fn w =
     (case fn w of
        (Inr v, w1) \<Rightarrow> (Inr v, w1)
      | (Inl e, w1) \<Rightarrow> retry_loop n e fn w1)"

definition retry :: "'a io \<Rightarrow> nat \<Rightarrow> 'a io" where
  "retry fn n = retry_loop n Undefined fn"

text \<open>The options object of \<^verbatim>\<open>updateOrderStatus\<close>; an absent field is \<open>None\<close>.\<close>

record update_opts =
  attemptsDelta :: "int option"
  opt_error :: "string option"
  txHash :: "string option"
  executedPrice :: "int option"
  routing :: "json_object option"

definition no_opts :: update_opts where
  "no_opts = \<lparr>attemptsDelta = None, opt_error = None, txHash = None, executedPrice = None,
              routing = None\<rparr>"

definition updateOrderStatus :: "worker_env \<Rightarrow> string \<Rightarrow> order_status \<Rightarrow> update_opts \<Rightarrow> unit io" where
  "updateOrderStatus env oid st opts =
     retry (pool_query env
              (update_status_sql oid st (COALESCE (attemptsDelta opts) 0) (opt_error opts)
                 (txHash opts) (executedPrice opts) (COALESCE (routing opts) Map.empty)))
       3"

definition setRoutingInfo :: "worker_env \<Rightarrow> string \<Rightarrow> json_object \<Rightarrow> unit io" where
  "setRoutingInfo env oid r = retry (pool_query env (set_routing_sql oid r)) 3"

section \<open>The orchestrator: the job processor of worker.ts (lines 16--112)\<close>

text \<open>
  The job payload (line 18).  \<open>amount_in\<close> is the integer that
  \<^verbatim>\<open>new BN(amount_in.toString())\<close> reads, \<open>None\<close> when the field is missing and the
  expression throws.  The slippage is a floating-point number passed on to the venue.
\<close>

record job =
  orderId :: string
  token_in :: "string option"
  token_out :: "string option"
  amount_in :: "int option"

definition mk_event :: "string \<Rightarrow> order_status \<Rightarrow> event" where
  "mk_event oid st =
     \<lparr>ev_orderId = oid, ev_status = st, ev_dex = None, ev_txHash = None,
      ev_executedOut = None, ev_error = None\<rparr>"

text \<open>Lines 31--34: publish \<^verbatim>\<open>pending\<close>, then write the status \<^verbatim>\<open>pending\<close> with no options.\<close>

definition reassert_pending :: "worker_env \<Rightarrow> job \<Rightarrow> unit io" where
  "reassert_pending env j =
     io_bind (publishOrderUpdate env (orderId j) (mk_event (orderId j) Pending)) (\<lambda>_.
     updateOrderStatus env (orderId j) Pending no_opts)"

text \<open>Lines 36--40: connection, wallet and the amount as a \<^verbatim>\<open>BN\<close>.\<close>

definition worker_setup :: "worker_env \<Rightarrow> job \<Rightarrow> int io" where
  "worker_setup env j =
     (case setup_fails env of
        Some e \<Rightarrow> io_throw e
      | None \<Rightarrow>
          (case amount_in j of
             None \<Rightarrow> io_throw (Error ''TypeError: Cannot read properties of undefined'')
           | Some a \<Rightarrow> io_return a))"

definition quote_params_of :: "worker_env \<Rightarrow> job \<Rightarrow> int \<Rightarrow> quote_params" where
  "quote_params_of env j amountBn =
     \<lparr>amountInBn = amountBn, tokenIn = token_in j, tokenOut = token_out j,
      meteoraPoolAddress = POOL_ADDRESS env, raydiumPoolId = POOL_ID env\<rparr>"

definition swap_params_of :: "worker_env \<Rightarrow> job \<Rightarrow> int \<Rightarrow> quote \<Rightarrow> swap_params" where
  "swap_params_of env j amountBn q =
     \<lparr>amountInBn = amountBn, tokenIn = token_in j, tokenOut = token_out j,
      meteoraPoolAddress = POOL_ADDRESS env, raydiumPoolId = POOL_ID env, p_dex = dex q\<rparr>"

text \<open>
  Lines 42--63: publish \<^verbatim>\<open>routing\<close>, ask the router, store the routing information,
  publish \<^verbatim>\<open>building\<close>, write the status \<^verbatim>\<open>routing\<close>.
\<close>

definition routing_phase :: "worker_env \<Rightarrow> job \<Rightarrow> int \<Rightarrow> quote io" where
  "routing_phase env j amountBn =
     io_bind (publishOrderUpdate env (orderId j) (mk_event (orderId j) Routing)) (\<lambda>_.
     io_bind (\<lambda>w. (getBestQuote (router env) (quote_params_of env j amountBn), w)) (\<lambda>q.
     io_bind (setRoutingInfo env (orderId j)
                [''chosen'' \<mapsto> JDex (dex q), ''estimatedOut'' \<mapsto> JDecimal (outAmountBn q),
                 ''details'' \<mapsto> JDetails (details q)]) (\<lambda>_.
     io_bind (publishOrderUpdate env (orderId j)
                ((mk_event (orderId j) Building)\<lparr>ev_dex := Some (dex q)\<rparr>)) (\<lambda>_.
     io_bind (updateOrderStatus env (orderId j) Routing no_opts) (\<lambda>_.
     io_return q)))))"

text \<open>The call of \<^verbatim>\<open>executeSwap\<close> inside the worker: its account operations reach the chain.\<close>

definition executeSwap_io :: "router_env \<Rightarrow> swap_params \<Rightarrow> swap_result io" where
  "executeSwap_io env params w =
     (case executeSwap env params of (r, l) \<Rightarrow> (r, w\<lparr>chain := chain w @ l\<rparr>))"

text \<open>
  Lines 67--98, the body of the inner \<^verbatim>\<open>try\<close>: publish \<^verbatim>\<open>submitted\<close>, execute, publish
  \<^verbatim>\<open>confirmed\<close>, write the status \<^verbatim>\<open>confirmed\<close>.
\<close>

definition execute_and_confirm :: "worker_env \<Rightarrow> job \<Rightarrow> int \<Rightarrow> quote \<Rightarrow> unit io" where
  "execute_and_confirm env j amountBn q =
     io_bind (publishOrderUpdate env (orderId j) (mk_event (orderId j) Submitted)) (\<lambda>_.
     io_bind (executeSwap_io (router env) (swap_params_of env j amountBn q)) (\<lambda>res.
     io_bind (publishOrderUpdate env (orderId j)
                ((mk_event (orderId j) Confirmed)
                   \<lparr>ev_txHash := txId res, ev_executedOut := executedOutBn res\<rparr>)) (\<lambda>_.
     io_bind (updateOrderStatus env (orderId j) Confirmed
                \<lparr>attemptsDelta = Some 0, opt_error = None, txHash = txId res,
                 executedPrice = executedOutBn res,
                 routing = Some [''chosen'' \<mapsto> JDex (dex q)]\<rparr>) (\<lambda>_.
     io_return ()))))"

text \<open>
  Lines 99--105, the handler of the inner \<^verbatim>\<open>try\<close>: publish \<^verbatim>\<open>failed\<close>, write the status
  \<^verbatim>\<open>failed\<close> with \<^verbatim>\<open>attemptsDelta: 1\<close>, rethrow.
\<close>

definition on_execution_error :: "worker_env \<Rightarrow> job \<Rightarrow> error \<Rightarrow> unit io" where
  "on_execution_error env j err =
     io_bind (publishOrderUpdate env (orderId j)
                ((mk_event (orderId j) Failed)\<lparr>ev_error := Some (String_of err)\<rparr>)) (\<lambda>_.
     io_bind (updateOrderStatus env (orderId j) Failed
                (no_opts\<lparr>attemptsDelta := Some 1, opt_error := Some (String_of err)\<rparr>)) (\<lambda>_.
     io_throw err))"

text \<open>
  The processor.  \<open>before_execution\<close> is everything ahead of the inner \<^verbatim>\<open>try\<close> (lines
  31--63), handing the amount and the chosen quote to the rest.  The outer handler
  (lines 106--111) logs and rethrows.  A returned value is \<^verbatim>\<open>{ ok: true }\<close>; a thrown
  error fails the job, and the queue decides about a redelivery.
\<close>

definition before_execution :: "worker_env \<Rightarrow> job \<Rightarrow> (int \<times> quote) io" where
  "before_execution env j =
     io_bind (reassert_pending env j) (\<lambda>_.
     io_bind (worker_setup env j) (\<lambda>amountBn.
     io_bind (routing_phase env j amountBn) (\<lambda>q.
     io_return (amountBn, q))))"

definition worker :: "worker_env \<Rightarrow> job \<Rightarrow> unit io" where
  "worker env j =
     try_catch
       (io_bind (before_execution env j) (\<lambda>(amountBn, q).
        try_catch (execute_and_confirm env j amountBn q) (on_execution_error env j)))
       (\<lambda>outerErr. io_throw outerErr)"

text \<open>What one run adds to the bus, as statuses; and the attempts counter of an order
  as SQL reads it (\<^verbatim>\<open>COALESCE(attempts, 0)\<close>).\<close>

definition run_statuses :: "worker_env \<Rightarrow> job \<Rightarrow> world \<Rightarrow> order_status list" where
  "run_statuses env j w =
     map (\<lambda>m. ev_status (snd m)) (drop (length (bus w)) (bus (snd (worker env j w))))"

definition attempts_of :: "world \<Rightarrow> string \<Rightarrow> int" where
  "attempts_of w oid =
     (case orders_tbl w oid of None \<Rightarrow> 0 | Some row \<Rightarrow> COALESCE (attempts row) 0)"

text \<open>
  The outcome of a retried statement read off the failure oracle: starting with the
  \<open>k\<close>-th query and \<open>n\<close> tries left, whether the retry ends in an error, and the number
  of the next query.
\<close>

primrec retry_outcome :: "(nat \<Rightarrow> error option) \<Rightarrow> nat \<Rightarrow> error \<Rightarrow> nat \<Rightarrow> error option \<times> nat" where
  "retry_outcome fails 0 lastErr k = (Some lastErr, k)"
| "retry_outcome fails (Suc n) lastErr k =
     (case fails k of
        None \<Rightarrow> (None, Suc k)
      | Some e \<Rightarrow> retry_outcome fails n e (Suc k))"

definition db_fails :: "worker_env \<Rightarrow> nat \<Rightarrow> error option" where
  "db_fails env k = fst (retry_outcome (query_fails env) 3 Undefined k)"

definition db_next :: "worker_env \<Rightarrow> nat \<Rightarrow> nat" where
  "db_next env k = snd (retry_outcome (query_fails env) 3 Undefined k)"

section \<open>Summaries of runs\<close>

text \<open>
  What a stretch of a run from world \<open>w\<close> to world \<open>w'\<close> did, as far as the statements
  below need it: the statuses \<open>tr\<close> of the events the bus accepted, in order; the amount
  \<open>a\<close> added to the attempts counter of order \<open>oid\<close> (when the order has a row; a
  statement on a missing row changes nothing); and whether every \<^verbatim>\<open>pub.publish\<close> call
  made went through (\<open>p\<close>).
\<close>

definition effect ::
  "worker_env \<Rightarrow> string \<Rightarrow> world \<Rightarrow> world \<Rightarrow> order_status list \<Rightarrow> int \<Rightarrow> bool \<Rightarrow> bool" where
  "effect env oid w w' tr a p \<longleftrightarrow>
     (\<exists>evs. bus w' = bus w @ evs \<and> map (\<lambda>m. ev_status (snd m)) evs = tr) \<and>
     attempts_of w' oid = attempts_of w oid + (if orders_tbl w oid = None then 0 else a) \<and>
     (orders_tbl w' oid = None \<longleftrightarrow> orders_tbl w oid = None) \<and>
     pub_calls w \<le> pub_calls w' \<and>
     (p \<longleftrightarrow> (\<forall>k. pub_calls w \<le> k \<and> k < pub_calls w' \<longrightarrow> publish_fails env k = None))"

text \<open>
  \<open>summ env oid f S\<close>: from every world, the outcome of \<open>f\<close> and what it did satisfy \<open>S\<close>.
\<close>

definition summ ::
  "worker_env \<Rightarrow> string \<Rightarrow> 'a io \<Rightarrow> ((error + 'a) \<Rightarrow> order_status list \<Rightarrow> int \<Rightarrow> bool \<Rightarrow> bool) \<Rightarrow> bool" where
  "summ env oid f S \<longleftrightarrow>
     (\<forall>w. case f w of (r, w') \<Rightarrow> (\<exists>tr a p. effect env oid w w' tr a p \<and> S r tr a p))"

text \<open>
  A run without infrastructure failures: no publish is rejected, no persistence call
  throws (each goes through within its three tries, wherever it starts), and the
  worker's setup does not throw.  \<open>swap_outcome\<close> is what \<^verbatim>\<open>executeSwap\<close> answers when the
  worker calls it for this job: with the job's amount and the quote the router chose
  for it.
\<close>

definition no_failures :: "worker_env \<Rightarrow> bool" where
  "no_failures env \<longleftrightarrow>
     (\<forall>k. publish_fails env k = None) \<and> (\<forall>k. db_fails env k = None) \<and> setup_fails env = None"

definition swap_outcome :: "worker_env \<Rightarrow> job \<Rightarrow> (error + swap_result) option" where
  "swap_outcome env j =
     (case amount_in j of
        None \<Rightarrow> None
      | Some amountBn \<Rightarrow>
          (case getBestQuote (router env) (quote_params_of env j amountBn) of
             Inl e \<Rightarrow> None
           | Inr q \<Rightarrow> Some (fst (executeSwap (router env) (swap_params_of env j amountBn q)))))"

text \<open>The value stored under a key of an order's \<^verbatim>\<open>routing_info\<close>, if any.\<close>

definition stored_routing :: "world \<Rightarrow> string \<Rightarrow> string \<Rightarrow> json option" where
  "stored_routing w oid key =
     (case orders_tbl w oid of
        None \<Rightarrow> None
      | Some row \<Rightarrow> (case routing_info row of None \<Rightarrow> None | Some obj \<Rightarrow> obj key))"

text \<open>
  The lifecycle property in the words of the specification: the statuses form a
  subsequence of pending, routing, building, submitted and one terminal status, begin
  with pending and end with confirmed or failed.
\<close>

definition lifecycle_complete :: "order_status list \<Rightarrow> bool" where
  "lifecycle_complete tr \<longleftrightarrow>
     (subseq tr [Pending, Routing, Building, Submitted, Confirmed] \<or>
      subseq tr [Pending, Routing, Building, Submitted, Failed]) \<and>
     tr \<noteq> [] \<and> hd tr = Pending \<and> (last tr = Confirmed \<or> last tr = Failed)"

section \<open>Concrete inputs\<close>

text \<open>
  A router environment in which both venues are unreachable and wrapping works, and the
  parameters of a quote for one million base units with both pools configured.
\<close>

definition env0 :: router_env where
  "env0 = \<lparr>envUseMock = False,
           meteora_sdk = (\<lambda>pool mint a. Inl (Error ''Error: meteora down'')),
           raydium_sdk = (\<lambda>pool mint a. Inl (Error ''Error: raydium down'')),
           now = ''0'',
           createWrappedNativeAccount = (\<lambda>l. Inr ''wsol-account''),
           closeAccount = (\<lambda>a. None),
           meteora_swap = (\<lambda>pool mint a. Inl (Error ''Error: swap rejected'')),
           initSdk = None,
           raydium_swap = (\<lambda>pool mint a. Inl (Error ''Error: swap rejected''))\<rparr>"

definition params0 :: quote_params where
  "params0 = \<lparr>amountInBn = 1000000, tokenIn = Some ''A'', tokenOut = Some ''B'',
              meteoraPoolAddress = Some ''pool-m'', raydiumPoolId = Some ''pool-r''\<rparr>"

text \<open>Both venues answer, with output amounts \<open>a\<close> (Meteora) and \<open>b\<close> (Raydium).\<close>

definition venue_quotes :: "int \<Rightarrow> int \<Rightarrow> router_env" where
  "venue_quotes a b =
     env0\<lparr>meteora_sdk := (\<lambda>pool mint amt. Inr (a, ''meteora-payload'')),
          raydium_sdk := (\<lambda>pool mint amt. Inr (b, ''raydium-payload''))\<rparr>"

text \<open>Exactly one venue is unreachable.\<close>

definition meteora_down :: router_env where
  "meteora_down = env0\<lparr>raydium_sdk := (\<lambda>pool mint amt. Inr (105, ''raydium-payload''))\<rparr>"

definition raydium_down :: router_env where
  "raydium_down = env0\<lparr>meteora_sdk := (\<lambda>pool mint amt. Inr (100, ''meteora-payload''))\<rparr>"

text \<open>A swap of native SOL on Meteora, and a router environment in which that swap is
  accepted (in \<open>env0\<close> it is rejected).\<close>

definition sol_swap :: swap_params where
  "sol_swap = \<lparr>amountInBn = 1000000, tokenIn = Some ''SOL'', tokenOut = Some ''B'',
               meteoraPoolAddress = Some ''pool-m'', raydiumPoolId = Some ''pool-r'',
               p_dex = Meteora\<rparr>"

definition swap_ok :: router_env where
  "swap_ok = env0\<lparr>meteora_swap := (\<lambda>pool mint a. Inr (Some ''sig-1'', Some 994000))\<rparr>"

text \<open>A registry in which connection 7 already watches order \<open>o1\<close>, and the registry of
  a fresh process.\<close>

definition shared_registry :: registry where
  "shared_registry = \<lparr>subscribers = [''o1'' \<mapsto> {7}], sub_cmds = [SUBSCRIBE (channel_of ''o1'')]\<rparr>"

definition empty_registry :: registry where
  "empty_registry = \<lparr>subscribers = Map.empty, sub_cmds = []\<rparr>"

text \<open>
  A worker environment without failures whose router finds both venues unreachable, a
  job for order \<open>o1\<close>, and a world whose table holds that order as a previous attempt
  left it: failed once, with an error and a transaction hash recorded.
\<close>

definition env_ok :: worker_env where
  "env_ok = \<lparr>router = env0, publish_fails = (\<lambda>k. None), query_fails = (\<lambda>k. None),
             setup_fails = None, POOL_ADDRESS = Some ''pool-m'', POOL_ID = Some ''pool-r''\<rparr>"

definition job0 :: job where
  "job0 = \<lparr>orderId = ''o1'', token_in = Some ''A'', token_out = Some ''B'',
           amount_in = Some 1000000\<rparr>"

definition row0 :: order_row where
  "row0 = \<lparr>status = Some Failed, attempts = Some 1, error = Some ''Error: swap rejected'',
           tx_hash = Some ''old-sig'', executed_price = Some 5,
           routing_info = Some [''estimatedOut'' \<mapsto> JDecimal 5]\<rparr>"

definition world0 :: world where
  "world0 = \<lparr>orders_tbl = [''o1'' \<mapsto> row0], bus = [], chain = [], pub_calls = 0,
             query_calls = 0\<rparr>"

text \<open>Meteora quotes 100 and then rejects the swap.\<close>

definition env_swap_fails :: worker_env where
  "env_swap_fails = env_ok\<lparr>router := raydium_down\<rparr>"

text \<open>The database rejects every query after the first.\<close>

definition env_db_down :: worker_env where
  "env_db_down = env_ok\<lparr>query_fails := (\<lambda>k. if k = 0 then None else Some (Error ''Error: db down''))\<rparr>"

text \<open>The event bus rejects every publish.\<close>

definition env_bus_down :: worker_env where
  "env_bus_down = env_ok\<lparr>publish_fails := (\<lambda>k. Some (Error ''Error: redis down''))\<rparr>"

text \<open>The swap is rejected and the bus rejects the fifth publish, that of \<^verbatim>\<open>failed\<close>.\<close>

definition env_failed_unpublished :: worker_env where
  "env_failed_unpublished =
     env_swap_fails\<lparr>publish_fails := (\<lambda>k. if k = 4 then Some (Error ''Error: redis down'') else None)\<rparr>"

text \<open>The swap goes through (simulated) and the bus rejects the fifth publish, that of
  \<^verbatim>\<open>confirmed\<close>.\<close>

definition env_confirmed_unpublished :: worker_env where
  "env_confirmed_unpublished =
     env_ok\<lparr>publish_fails := (\<lambda>k. if k = 4 then Some (Error ''Error: redis down'') else None)\<rparr>"

text \<open>The options of a \<^verbatim>\<open>confirmed\<close> write that names the chosen venue.\<close>

definition confirm_opts :: update_opts where
  "confirm_opts = \<lparr>attemptsDelta = Some 0, opt_error = None, txHash = Some ''sig-1'',
                   executedPrice = Some 994000, routing = Some [''chosen'' \<mapsto> JDex Meteora]\<rparr>"

section \<open>The router selects the best quote\<close>

subsection \<open>Auxiliary facts\<close>

lemma bn_div_nonneg: "0 \<le> a \<Longrightarrow> 0 < b \<Longrightarrow> bn_div a b = a div b"
  by (simp add: bn_div_def sgn_if)

lemma cmp_quotes_le0: "cmp_quotes x c \<le> 0 \<longleftrightarrow> outAmountBn c \<le> outAmountBn x"
  by (simp add: cmp_quotes_def Let_def)

lemma array_sort_Cons: "array_sort cmp (x # xs) = insert_by cmp x (array_sort cmp xs)"
  by (simp add: array_sort_def)

lemma array_sort_head:
  "qs \<noteq> [] \<Longrightarrow>
     \<exists>chosen rest pre post.
        array_sort cmp_quotes qs = chosen # rest \<and> qs = pre @ chosen # post \<and>
        (\<forall>q\<in>set pre. outAmountBn q < outAmountBn chosen) \<and>
        (\<forall>q\<in>set post. outAmountBn q \<le> outAmountBn chosen)"
proof (induction qs)
  case Nil
  then show ?case by simp
next
  case (Cons x xs)
  show ?case
  proof (cases "xs = []")
    case True
    then have "array_sort cmp_quotes (x # xs) = [x]" by (simp add: array_sort_def)
    with True show ?thesis by fastforce
  next
    case False
    from Cons.IH [OF False] obtain c rest pre post where
      s: "array_sort cmp_quotes xs = c # rest" and d: "xs = pre @ c # post" and
      lt: "\<forall>q\<in>set pre. outAmountBn q < outAmountBn c" and
      le: "\<forall>q\<in>set post. outAmountBn q \<le> outAmountBn c"
      by blast
    show ?thesis
    proof (cases "outAmountBn c \<le> outAmountBn x")
      case True
      have "array_sort cmp_quotes (x # xs) = x # c # rest"
        using True by (simp add: array_sort_Cons s cmp_quotes_le0)
      moreover have "x # xs = [] @ x # xs" by simp
      moreover have "\<forall>q\<in>set xs. outAmountBn q \<le> outAmountBn x"
        using d lt le True by auto
      ultimately show ?thesis by (metis empty_iff empty_set)
    next
      case False
      have "array_sort cmp_quotes (x # xs) = c # insert_by cmp_quotes x rest"
        using False by (simp add: array_sort_Cons s cmp_quotes_le0)
      moreover have "x # xs = (x # pre) @ c # post" using d by simp
      moreover have "\<forall>q\<in>set (x # pre). outAmountBn q < outAmountBn c"
        using lt False by auto
      ultimately show ?thesis using le by blast
    qed
  qed
qed

lemma collect_quotes_cases:
  "collect_quotes env params =
     (if truthy (meteoraPoolAddress params) then
        (case getMeteoraQuote env (the (meteoraPoolAddress params)) (tokenIn params) (amountInBn params) of
           Inr q \<Rightarrow> [q] | Inl e \<Rightarrow> [])
      else []) @
     (if truthy (raydiumPoolId params) then
        (case getRaydiumQuote env (the (raydiumPoolId params)) (tokenIn params) (amountInBn params) of
           Inr q \<Rightarrow> [q] | Inl e \<Rightarrow> [])
      else [])"
  by (simp add: collect_quotes_def Let_def split: sum.splits)

lemma bn_div_neg: "a < 0 \<Longrightarrow> 0 < b \<Longrightarrow> bn_div a b = - ((- a) div b)"
  by (simp add: bn_div_def sgn_if)

lemma mock_quote_rounding:
  "mock_quote a =
     \<lparr>dex = Mock,
      outAmountBn = (if 0 \<le> a then \<lfloor>real_of_int a * 9949 / 10000\<rfloor>
                     else \<lceil>real_of_int a * 9949 / 10000\<rceil>),
      details = Simulated\<rparr>"
proof (cases "0 \<le> a")
  case True
  have "\<lfloor>real_of_int a * 9949 / 10000\<rfloor> = \<lfloor>real_of_int (a * 9949) / real_of_int 10000\<rfloor>"
    by simp
  also have "\<dots> = (a * 9949) div 10000" by (rule floor_divide_of_int_eq)
  finally show ?thesis using True by (simp add: mock_quote_def bn_div_nonneg)
next
  case False
  then have n: "a * 9949 < 0" by simp
  have "\<lceil>real_of_int a * 9949 / 10000\<rceil> = - \<lfloor>- (real_of_int a * 9949 / 10000)\<rfloor>"
    by (simp add: ceiling_def)
  also have "- (real_of_int a * 9949 / 10000) = real_of_int (- (a * 9949)) / real_of_int 10000"
    by simp
  also have "\<lfloor>\<dots>\<rfloor> = (- (a * 9949)) div 10000" by (rule floor_divide_of_int_eq)
  finally have "\<lceil>real_of_int a * 9949 / 10000\<rceil> = - ((- (a * 9949)) div 10000)" .
  with False show ?thesis by (simp add: mock_quote_def bn_div_neg [OF n])
qed

lemma getBestQuote_nonempty:
  assumes "\<not> envUseMock env" and "collect_quotes env params \<noteq> []"
  shows "\<exists>chosen rest. array_sort cmp_quotes (collect_quotes env params) = chosen # rest \<and>
           getBestQuote env params = Inr chosen"
proof -
  from array_sort_head [OF assms(2)] obtain chosen rest where
    "array_sort cmp_quotes (collect_quotes env params) = chosen # rest" by blast
  then show ?thesis using assms by (simp add: getBestQuote_def Let_def)
qed

subsection \<open>Selection rule\<close>

text \<open>
  Claim C3.  Outside simulation mode and for every non-empty array of collected quotes,
  \<^verbatim>\<open>getBestQuote\<close> returns a quote of that array whose output amount is maximal, and of
  the quotes attaining the maximum it returns the one collected first: every quote
  before the chosen one is strictly smaller, every quote after it is at most as large.
  As Meteora is collected before Raydium, a tie between the two goes to Meteora.  The
  result is a function of the simulation flag and the venue responses alone.
\<close>

theorem getBestQuote_selects_maximum:
  assumes "\<not> envUseMock env" and "collect_quotes env params \<noteq> []"
  shows "\<exists>chosen pre post.
           getBestQuote env params = Inr chosen \<and>
           collect_quotes env params = pre @ chosen # post \<and>
           (\<forall>q\<in>set pre. outAmountBn q < outAmountBn chosen) \<and>
           (\<forall>q\<in>set post. outAmountBn q \<le> outAmountBn chosen) \<and>
           (\<forall>m r. collect_quotes env params = [m, r] \<and> outAmountBn m = outAmountBn r \<longrightarrow>
                  chosen = m \<and> dex m = Meteora) \<and>
           (\<forall>env'. envUseMock env' = envUseMock env \<and> meteora_sdk env' = meteora_sdk env \<and>
                   raydium_sdk env' = raydium_sdk env \<longrightarrow>
                   getBestQuote env' params = getBestQuote env params)"
proof -
  from array_sort_head [OF assms(2)] obtain chosen rest pre post where
    s: "array_sort cmp_quotes (collect_quotes env params) = chosen # rest" and
    d: "collect_quotes env params = pre @ chosen # post" and
    lt: "\<forall>q\<in>set pre. outAmountBn q < outAmountBn chosen" and
    le: "\<forall>q\<in>set post. outAmountBn q \<le> outAmountBn chosen"
    by blast
  have g: "getBestQuote env params = Inr chosen"
    using s assms by (simp add: getBestQuote_def Let_def)
  have tie: "chosen = m \<and> dex m = Meteora"
    if "collect_quotes env params = [m, r] \<and> outAmountBn m = outAmountBn r" for m r
  proof -
    from that have two: "collect_quotes env params = [m, r]" and eq: "outAmountBn m = outAmountBn r"
      by simp_all
    have "pre = []"
    proof (rule ccontr)
      assume "pre \<noteq> []"
      then obtain p ps where p: "pre = p # ps" by (cases pre) auto
      with d two have "p = m" and "chosen = r \<or> chosen \<in> set ps" by (cases ps; auto)+
      with d two p have "chosen = r" by (cases ps; auto)
      with lt p \<open>p = m\<close> eq show False by simp
    qed
    with d two have "chosen = m" by simp
    moreover have "dex m = Meteora"
      using two
      by (auto simp: collect_quotes_cases getMeteoraQuote_def getRaydiumQuote_def
               split: if_splits sum.splits prod.splits)
    ultimately show ?thesis by simp
  qed
  have det: "getBestQuote env' params = getBestQuote env params"
    if "envUseMock env' = envUseMock env \<and> meteora_sdk env' = meteora_sdk env \<and>
        raydium_sdk env' = raydium_sdk env" for env'
  proof -
    from that have "collect_quotes env' params = collect_quotes env params"
      by (simp add: collect_quotes_def getMeteoraQuote_def getRaydiumQuote_def)
    with that show ?thesis by (simp add: getBestQuote_def)
  qed
  from g d lt le tie det show ?thesis by blast
qed

theorem getBestQuote_selects_maximum_witness:
  "\<not> envUseMock (venue_quotes 100 105) \<and> collect_quotes (venue_quotes 100 105) params0 \<noteq> [] \<and>
   getBestQuote (venue_quotes 100 105) params0 =
     Inr \<lparr>dex = Raydium, outAmountBn = 105, details = Venue_details ''raydium-payload''\<rparr> \<and>
   getBestQuote (venue_quotes 100 100) params0 =
     Inr \<lparr>dex = Meteora, outAmountBn = 100, details = Venue_details ''meteora-payload''\<rparr>"
proof -
  let ?m = "\<lambda>a. \<lparr>dex = Meteora, outAmountBn = a, details = Venue_details ''meteora-payload''\<rparr>"
  let ?r = "\<lambda>b. \<lparr>dex = Raydium, outAmountBn = b, details = Venue_details ''raydium-payload''\<rparr>"
  have c: "collect_quotes (venue_quotes a b) params0 = [?m a, ?r b]" for a b
    by (simp add: collect_quotes_def venue_quotes_def env0_def params0_def getMeteoraQuote_def
          getRaydiumQuote_def)
  have n: "\<not> envUseMock (venue_quotes a b)" for a b
    by (simp add: venue_quotes_def env0_def)
  have ne: "collect_quotes (venue_quotes a b) params0 \<noteq> []" for a b
    by (simp add: c)
  from getBestQuote_selects_maximum [OF n ne, of 100 105] obtain chosen pre post where
    g: "getBestQuote (venue_quotes 100 105) params0 = Inr chosen" and
    d: "[?m 100, ?r 105] = pre @ chosen # post" and
    le: "\<forall>q\<in>set post. outAmountBn q \<le> outAmountBn chosen"
    unfolding c by blast
  have "chosen = ?r 105"
  proof (cases pre)
    case Nil
    with d le show ?thesis by auto
  next
    case (Cons p ps)
    with d show ?thesis by (cases ps) auto
  qed
  with g have 1: "getBestQuote (venue_quotes 100 105) params0 = Inr (?r 105)" by simp
  from getBestQuote_selects_maximum [OF n ne, of 100 100] obtain chosen' where
    g': "getBestQuote (venue_quotes 100 100) params0 = Inr chosen'" and
    t: "\<forall>m r. [?m 100, ?r 100] = [m, r] \<and> outAmountBn m = outAmountBn r \<longrightarrow> chosen' = m \<and> dex m = Meteora"
    unfolding c by blast
  from t have "chosen' = ?m 100" by simp
  with g' have 2: "getBestQuote (venue_quotes 100 100) params0 = Inr (?m 100)" by simp
  from n ne 1 2 show ?thesis by simp
qed

subsection \<open>Fallback quote\<close>

text \<open>
  Claim C4, as stated, fails for a negative amount, which neither the admission route
  (it only tests that \<^verbatim>\<open>amount_in\<close> is truthy) nor the worker rejects: \<^verbatim>\<open>BN.div\<close>
  rounds towards zero.  For \<^verbatim>\<open>amountIn = -10001\<close> and no venue reachable the quote is
  \<open>-9949\<close>, while \<open>\<lfloor>-10001 \<times> 9949 / 10000\<rfloor>\<close> is \<open>-9950\<close>.
\<close>

theorem fallback_formula_fails_on_negative_amount:
  "collect_quotes env0 (params0\<lparr>amountInBn := - 10001\<rparr>) = [] \<and>
   getBestQuote env0 (params0\<lparr>amountInBn := - 10001\<rparr>) =
     Inr \<lparr>dex = Mock, outAmountBn = - 9949, details = Simulated\<rparr> \<and>
   \<lfloor>real_of_int (- 10001) * 9949 / 10000\<rfloor> = - 9950"
proof -
  have c: "collect_quotes env0 (params0\<lparr>amountInBn := - 10001\<rparr>) = []"
    by (simp add: collect_quotes_def env0_def params0_def getMeteoraQuote_def getRaydiumQuote_def)
  then have g: "getBestQuote env0 (params0\<lparr>amountInBn := - 10001\<rparr>) =
     Inr \<lparr>dex = Mock, outAmountBn = - 9949, details = Simulated\<rparr>"
    by (simp add: getBestQuote_def env0_def params0_def mock_quote_def bn_div_def)
  have "\<lfloor>real_of_int (- 99499949) / real_of_int 10000\<rfloor> = (- 99499949) div 10000"
    by (rule floor_divide_of_int_eq)
  then have f: "\<lfloor>real_of_int (- 10001) * 9949 / 10000\<rfloor> = - 9950" by simp
  from c g f show ?thesis by simp
qed

text \<open>
  Claim C4, amended.  In simulation mode, or when no venue contributed a quote,
  \<^verbatim>\<open>getBestQuote\<close> returns the synthetic quote of venue \<^verbatim>\<open>mock\<close> whose output amount
  is \<open>amountIn \<times> 9949 / 10000\<close> computed in exact integer arithmetic and rounded
  towards zero: the floor \<open>\<lfloor>amountIn \<times> 9949 / 10000\<rfloor>\<close> for every amount that is not
  negative, the ceiling for a negative one.  For one million base units it is 994900.
\<close>

theorem getBestQuote_fallback_formula:
  assumes "envUseMock env \<or> collect_quotes env params = []"
  shows "getBestQuote env params =
           Inr \<lparr>dex = Mock,
                outAmountBn =
                  (if 0 \<le> amountInBn params
                   then \<lfloor>real_of_int (amountInBn params) * 9949 / 10000\<rfloor>
                   else \<lceil>real_of_int (amountInBn params) * 9949 / 10000\<rceil>),
                details = Simulated\<rparr> \<and>
         (amountInBn params = 1000000 \<longrightarrow>
            getBestQuote env params = Inr \<lparr>dex = Mock, outAmountBn = 994900, details = Simulated\<rparr>)"
proof -
  from assms have g: "getBestQuote env params = Inr (mock_quote (amountInBn params))"
    by (auto simp: getBestQuote_def Let_def)
  then have f: "getBestQuote env params =
           Inr \<lparr>dex = Mock,
                outAmountBn =
                  (if 0 \<le> amountInBn params
                   then \<lfloor>real_of_int (amountInBn params) * 9949 / 10000\<rfloor>
                   else \<lceil>real_of_int (amountInBn params) * 9949 / 10000\<rceil>),
                details = Simulated\<rparr>"
    by (simp add: mock_quote_rounding)
  have "getBestQuote env params = Inr \<lparr>dex = Mock, outAmountBn = 994900, details = Simulated\<rparr>"
    if "amountInBn params = 1000000"
    using g that by (simp add: mock_quote_def bn_div_def)
  with f show ?thesis by blast
qed

theorem getBestQuote_fallback_formula_witness:
  "collect_quotes env0 params0 = [] \<and> amountInBn params0 = 1000000 \<and>
   getBestQuote env0 params0 = Inr \<lparr>dex = Mock, outAmountBn = 994900, details = Simulated\<rparr> \<and>
   envUseMock (env0\<lparr>envUseMock := True\<rparr>) \<and>
   getBestQuote (env0\<lparr>envUseMock := True\<rparr>) params0 =
     Inr \<lparr>dex = Mock, outAmountBn = 994900, details = Simulated\<rparr>"
proof -
  have c: "collect_quotes env0 params0 = []"
    by (simp add: collect_quotes_def env0_def params0_def getMeteoraQuote_def getRaydiumQuote_def)
  have a: "amountInBn params0 = 1000000"
    by (simp add: params0_def)
  have m: "envUseMock (env0\<lparr>envUseMock := True\<rparr>)" by simp
  from getBestQuote_fallback_formula [of env0 params0] c a
  have 1: "getBestQuote env0 params0 = Inr \<lparr>dex = Mock, outAmountBn = 994900, details = Simulated\<rparr>"
    by blast
  from getBestQuote_fallback_formula [of "env0\<lparr>envUseMock := True\<rparr>" params0] m a
  have 2: "getBestQuote (env0\<lparr>envUseMock := True\<rparr>) params0 =
             Inr \<lparr>dex = Mock, outAmountBn = 994900, details = Simulated\<rparr>"
    by blast
  from c a 1 2 show ?thesis by simp
qed

subsection \<open>Venue failures are absorbed\<close>

text \<open>
  Claim C7.  Outside simulation mode, when the Meteora call throws and the Raydium call
  returns, \<^verbatim>\<open>getBestQuote\<close> returns the Raydium quote, and the other way round; when
  both calls throw it returns the fallback quote; and whatever the venues do,
  \<^verbatim>\<open>getBestQuote\<close> returns a quote and does not throw.
\<close>

theorem getBestQuote_isolates_venue_failures:
  "(\<forall>e b y. \<not> envUseMock env \<and> truthy (meteoraPoolAddress params) \<and> truthy (raydiumPoolId params) \<and>
       meteora_sdk env (the (meteoraPoolAddress params)) (tokenIn params) (amountInBn params) = Inl e \<and>
       raydium_sdk env (the (raydiumPoolId params)) (tokenIn params) (amountInBn params) = Inr (b, y) \<longrightarrow>
       getBestQuote env params = Inr \<lparr>dex = Raydium, outAmountBn = b, details = Venue_details y\<rparr>) \<and>
   (\<forall>e a x. \<not> envUseMock env \<and> truthy (meteoraPoolAddress params) \<and> truthy (raydiumPoolId params) \<and>
       meteora_sdk env (the (meteoraPoolAddress params)) (tokenIn params) (amountInBn params) = Inr (a, x) \<and>
       raydium_sdk env (the (raydiumPoolId params)) (tokenIn params) (amountInBn params) = Inl e \<longrightarrow>
       getBestQuote env params = Inr \<lparr>dex = Meteora, outAmountBn = a, details = Venue_details x\<rparr>) \<and>
   (\<forall>e1 e2.
       meteora_sdk env (the (meteoraPoolAddress params)) (tokenIn params) (amountInBn params) = Inl e1 \<and>
       raydium_sdk env (the (raydiumPoolId params)) (tokenIn params) (amountInBn params) = Inl e2 \<longrightarrow>
       getBestQuote env params = Inr (mock_quote (amountInBn params))) \<and>
   (\<exists>q. getBestQuote env params = Inr q)"
proof (intro conjI allI impI)
  fix e b y
  assume "\<not> envUseMock env \<and> truthy (meteoraPoolAddress params) \<and> truthy (raydiumPoolId params) \<and>
       meteora_sdk env (the (meteoraPoolAddress params)) (tokenIn params) (amountInBn params) = Inl e \<and>
       raydium_sdk env (the (raydiumPoolId params)) (tokenIn params) (amountInBn params) = Inr (b, y)"
  then show "getBestQuote env params = Inr \<lparr>dex = Raydium, outAmountBn = b, details = Venue_details y\<rparr>"
    by (simp add: getBestQuote_def collect_quotes_cases getMeteoraQuote_def getRaydiumQuote_def
          array_sort_def)
next
  fix e a x
  assume "\<not> envUseMock env \<and> truthy (meteoraPoolAddress params) \<and> truthy (raydiumPoolId params) \<and>
       meteora_sdk env (the (meteoraPoolAddress params)) (tokenIn params) (amountInBn params) = Inr (a, x) \<and>
       raydium_sdk env (the (raydiumPoolId params)) (tokenIn params) (amountInBn params) = Inl e"
  then show "getBestQuote env params = Inr \<lparr>dex = Meteora, outAmountBn = a, details = Venue_details x\<rparr>"
    by (simp add: getBestQuote_def collect_quotes_cases getMeteoraQuote_def getRaydiumQuote_def
          array_sort_def)
next
  fix e1 e2
  assume "meteora_sdk env (the (meteoraPoolAddress params)) (tokenIn params) (amountInBn params) = Inl e1 \<and>
       raydium_sdk env (the (raydiumPoolId params)) (tokenIn params) (amountInBn params) = Inl e2"
  then show "getBestQuote env params = Inr (mock_quote (amountInBn params))"
    by (simp add: getBestQuote_def collect_quotes_cases getMeteoraQuote_def getRaydiumQuote_def)
next
  show "\<exists>q. getBestQuote env params = Inr q"
  proof (cases "envUseMock env \<or> collect_quotes env params = []")
    case True
    then show ?thesis by (auto simp: getBestQuote_def Let_def)
  next
    case False
    then show ?thesis using getBestQuote_nonempty [of env params] by blast
  qed
qed

theorem getBestQuote_isolates_venue_failures_witness:
  "getBestQuote meteora_down params0 =
     Inr \<lparr>dex = Raydium, outAmountBn = 105, details = Venue_details ''raydium-payload''\<rparr> \<and>
   getBestQuote raydium_down params0 =
     Inr \<lparr>dex = Meteora, outAmountBn = 100, details = Venue_details ''meteora-payload''\<rparr> \<and>
   getBestQuote env0 params0 = Inr \<lparr>dex = Mock, outAmountBn = 994900, details = Simulated\<rparr>"
proof -
  have 1: "getBestQuote meteora_down params0 =
     Inr \<lparr>dex = Raydium, outAmountBn = 105, details = Venue_details ''raydium-payload''\<rparr>"
    using getBestQuote_isolates_venue_failures [of meteora_down params0]
    by (simp add: meteora_down_def env0_def params0_def)
  have 2: "getBestQuote raydium_down params0 =
     Inr \<lparr>dex = Meteora, outAmountBn = 100, details = Venue_details ''meteora-payload''\<rparr>"
    using getBestQuote_isolates_venue_failures [of raydium_down params0]
    by (simp add: raydium_down_def env0_def params0_def)
  have 3: "getBestQuote env0 params0 = Inr \<lparr>dex = Mock, outAmountBn = 994900, details = Simulated\<rparr>"
    using getBestQuote_isolates_venue_failures [of env0 params0]
    by (simp add: env0_def params0_def mock_quote_def bn_div_def)
  from 1 2 3 show ?thesis by simp
qed

section \<open>The execution step releases what it acquired\<close>

lemma executeSwap_log_cases:
  "snd (executeSwap env params) = [] \<or>
   (\<exists>a ok. snd (executeSwap env params) = [CreateWrappedNativeAccount a, CloseAccount a ok] \<and>
      createWrappedNativeAccount env (amountInBn params) = Inr a \<and>
      fst (executeSwap env params) = swap_on_venue env params (Some a))"
  by (auto simp: executeSwap_def wrapSOLAndGetCleanup_def cleanup_def Let_def
           split: sum.splits option.splits prod.splits)

text \<open>
  Claim C8.  Whenever \<^verbatim>\<open>executeSwap\<close> creates a temporary wrapped-SOL account, the
  account operations of the call are exactly the creation followed by one call of
  \<^verbatim>\<open>closeAccount\<close> on that account, issued by the cleanup function in the \<^verbatim>\<open>finally\<close>
  block.  Outside simulation mode, with \<^verbatim>\<open>tokenIn\<close> equal to \<^verbatim>\<open>'SOL'\<close> or undefined and a
  creation that returns, this is so whatever the swap on the venue does: the result of
  \<^verbatim>\<open>executeSwap\<close> is the result of the venue branch, returned or thrown.
\<close>

theorem executeSwap_always_cleans_up:
  "(\<forall>a. CreateWrappedNativeAccount a \<in> set (snd (executeSwap env params)) \<longrightarrow>
        (\<exists>ok. snd (executeSwap env params) = [CreateWrappedNativeAccount a, CloseAccount a ok])) \<and>
   (\<forall>a. \<not> envUseMock env \<and> p_dex params \<noteq> Mock \<and>
        (tokenIn params = Some ''SOL'' \<or> tokenIn params = None) \<and>
        createWrappedNativeAccount env (amountInBn params) = Inr a \<longrightarrow>
        fst (executeSwap env params) = swap_on_venue env params (Some a) \<and>
        (\<exists>ok. snd (executeSwap env params) = [CreateWrappedNativeAccount a, CloseAccount a ok]))"
proof (intro conjI allI impI)
  fix a
  assume "CreateWrappedNativeAccount a \<in> set (snd (executeSwap env params))"
  with executeSwap_log_cases [of env params]
  show "\<exists>ok. snd (executeSwap env params) = [CreateWrappedNativeAccount a, CloseAccount a ok]"
    by auto
next
  fix a
  assume h: "\<not> envUseMock env \<and> p_dex params \<noteq> Mock \<and>
        (tokenIn params = Some ''SOL'' \<or> tokenIn params = None) \<and>
        createWrappedNativeAccount env (amountInBn params) = Inr a"
  have ne: "Some ''SOL'' \<noteq> Some WSOL_MINT" by (simp add: WSOL_MINT_def)
  from h ne show "fst (executeSwap env params) = swap_on_venue env params (Some a)"
    by (auto simp: executeSwap_def wrapSOLAndGetCleanup_def cleanup_def Let_def
             split: sum.splits option.splits prod.splits)
  from h ne show "\<exists>ok. snd (executeSwap env params) = [CreateWrappedNativeAccount a, CloseAccount a ok]"
    by (auto simp: executeSwap_def wrapSOLAndGetCleanup_def cleanup_def Let_def
             split: sum.splits option.splits prod.splits)
qed

theorem executeSwap_always_cleans_up_witness:
  "executeSwap env0 sol_swap =
     (Inl (Error ''Error: swap rejected''),
      [CreateWrappedNativeAccount ''wsol-account'', CloseAccount ''wsol-account'' True]) \<and>
   executeSwap swap_ok sol_swap =
     (Inr \<lparr>txId = Some ''sig-1'', executedOutBn = Some 994000, res_dex = Meteora, simulated = False\<rparr>,
      [CreateWrappedNativeAccount ''wsol-account'', CloseAccount ''wsol-account'' True])"
proof -
  have 1: "fst (executeSwap env0 sol_swap) = Inl (Error ''Error: swap rejected'') \<and>
           snd (executeSwap env0 sol_swap) =
             [CreateWrappedNativeAccount ''wsol-account'', CloseAccount ''wsol-account'' True]"
    using executeSwap_always_cleans_up [of env0 sol_swap]
    by (simp add: env0_def sol_swap_def swap_on_venue_def executeSwap_def
          wrapSOLAndGetCleanup_def cleanup_def WSOL_MINT_def)
  have 2: "fst (executeSwap swap_ok sol_swap) =
             Inr \<lparr>txId = Some ''sig-1'', executedOutBn = Some 994000, res_dex = Meteora, simulated = False\<rparr> \<and>
           snd (executeSwap swap_ok sol_swap) =
             [CreateWrappedNativeAccount ''wsol-account'', CloseAccount ''wsol-account'' True]"
    using executeSwap_always_cleans_up [of swap_ok sol_swap]
    by (simp add: swap_ok_def env0_def sol_swap_def swap_on_venue_def executeSwap_def
          wrapSOLAndGetCleanup_def cleanup_def WSOL_MINT_def)
  from 1 2 show ?thesis by (simp add: prod_eq_iff)
qed

section \<open>The subscription registry\<close>

lemma upstream_snoc: "upstream (cmds @ [c]) = redis_step (upstream cmds) c"
  by (simp add: upstream_def)

text \<open>
  Claim C9, as stated, fails where another connection watches the same order: after
  connection 3 subscribes to and unsubscribes from order \<open>o1\<close>, which connection 7
  watches, the entry of \<open>o1\<close> is still there with connection 7 in it, no UNSUBSCRIBE
  has been sent and the channel is still subscribed upstream.  The guard
  \<^verbatim>\<open>if (set.size === 0)\<close> of \<^verbatim>\<open>unsubscribeSocket\<close> (line 48) decides this.
\<close>

theorem unsubscribe_keeps_shared_entry:
  "subscribers (unsubscribeSocket ''o1'' 3 (subscribeSocket ''o1'' 3 shared_registry)) ''o1'' = Some {7} \<and>
   sub_cmds (unsubscribeSocket ''o1'' 3 (subscribeSocket ''o1'' 3 shared_registry)) =
     [SUBSCRIBE (channel_of ''o1'')] \<and>
   channel_of ''o1'' \<in> upstream (sub_cmds (unsubscribeSocket ''o1'' 3 (subscribeSocket ''o1'' 3 shared_registry)))"
  by (simp add: shared_registry_def subscribeSocket_def unsubscribeSocket_def upstream_def)

text \<open>
  Claim C9, amended.  For every order and connection \<open>c\<close> such that no other connection
  is subscribed to the order, \<^verbatim>\<open>subscribeSocket\<close> followed by \<^verbatim>\<open>unsubscribeSocket\<close> leaves
  no entry for the order and the order's channel unsubscribed upstream; a further
  \<^verbatim>\<open>subscribeSocket\<close> for the order, by any connection \<open>c'\<close>, creates the entry again
  and subscribes the channel again.
\<close>

theorem subscribe_unsubscribe_sole_connection:
  assumes "\<forall>s. subscribers r oid = Some s \<longrightarrow> s \<subseteq> {c}"
  shows "subscribers (unsubscribeSocket oid c (subscribeSocket oid c r)) oid = None \<and>
         channel_of oid \<notin> upstream (sub_cmds (unsubscribeSocket oid c (subscribeSocket oid c r))) \<and>
         subscribers (subscribeSocket oid c' (unsubscribeSocket oid c (subscribeSocket oid c r))) oid
           = Some {c'} \<and>
         channel_of oid \<in>
           upstream (sub_cmds (subscribeSocket oid c' (unsubscribeSocket oid c (subscribeSocket oid c r))))"
proof -
  let ?r1 = "unsubscribeSocket oid c (subscribeSocket oid c r)"
  have s1: "subscribers ?r1 oid = None"
    using assms by (auto simp: subscribeSocket_def unsubscribeSocket_def split: option.splits)
  have "\<exists>cmds. sub_cmds ?r1 = cmds @ [UNSUBSCRIBE (channel_of oid)]"
    using assms by (auto simp: subscribeSocket_def unsubscribeSocket_def split: option.splits)
  then obtain cmds where c1: "sub_cmds ?r1 = cmds @ [UNSUBSCRIBE (channel_of oid)]" by blast
  have u1: "channel_of oid \<notin> upstream (sub_cmds ?r1)"
    by (simp add: c1 upstream_snoc)
  have s2: "subscribers (subscribeSocket oid c' ?r1) oid = Some {c'}"
    using s1 by (simp add: subscribeSocket_def)
  have "sub_cmds (subscribeSocket oid c' ?r1) = sub_cmds ?r1 @ [SUBSCRIBE (channel_of oid)]"
    using s1 by (simp add: subscribeSocket_def)
  then have u2: "channel_of oid \<in> upstream (sub_cmds (subscribeSocket oid c' ?r1))"
    by (simp add: upstream_snoc)
  from s1 u1 s2 u2 show ?thesis by simp
qed

theorem subscribe_unsubscribe_sole_connection_witness:
  "subscribers empty_registry ''o1'' = None \<and>
   subscribers (unsubscribeSocket ''o1'' 3 (subscribeSocket ''o1'' 3 empty_registry)) ''o1'' = None \<and>
   sub_cmds (unsubscribeSocket ''o1'' 3 (subscribeSocket ''o1'' 3 empty_registry)) =
     [SUBSCRIBE ''order:o1'', UNSUBSCRIBE ''order:o1''] \<and>
   subscribers (subscribeSocket ''o1'' 4 (unsubscribeSocket ''o1'' 3 (subscribeSocket ''o1'' 3 empty_registry))) ''o1''
     = Some {4} \<and>
   ''order:o1'' \<in>
     upstream (sub_cmds (subscribeSocket ''o1'' 4 (unsubscribeSocket ''o1'' 3 (subscribeSocket ''o1'' 3 empty_registry))))"
proof -
  have n: "subscribers empty_registry ''o1'' = None"
    by (simp add: empty_registry_def)
  then have h: "\<forall>s. subscribers empty_registry ''o1'' = Some s \<longrightarrow> s \<subseteq> {3}"
    by simp
  have c: "sub_cmds (unsubscribeSocket ''o1'' 3 (subscribeSocket ''o1'' 3 empty_registry)) =
     [SUBSCRIBE ''order:o1'', UNSUBSCRIBE ''order:o1'']"
    by (simp add: empty_registry_def subscribeSocket_def unsubscribeSocket_def channel_of_def)
  from subscribe_unsubscribe_sole_connection [OF h, of 4] n c show ?thesis
    by (simp add: channel_of_def)
qed

section \<open>Reasoning about runs of the worker\<close>

subsection \<open>The primitive operations\<close>

lemma pool_query_eq:
  "pool_query env stmt w =
     (case query_fails env (query_calls w) of
        None \<Rightarrow> (Inr (), w\<lparr>orders_tbl := stmt (orders_tbl w), query_calls := Suc (query_calls w)\<rparr>)
      | Some e \<Rightarrow> (Inl e, w\<lparr>query_calls := Suc (query_calls w)\<rparr>))"
  by (simp add: pool_query_def Let_def split: option.splits)

lemma retry_loop_pool_query:
  "retry_loop n lastErr (pool_query env stmt) w =
     (case retry_outcome (query_fails env) n lastErr (query_calls w) of
        (None, k') \<Rightarrow> (Inr (), w\<lparr>orders_tbl := stmt (orders_tbl w), query_calls := k'\<rparr>)
      | (Some e, k') \<Rightarrow> (Inl e, w\<lparr>query_calls := k'\<rparr>))"
proof (induction n arbitrary: lastErr w)
  case 0
  show ?case by simp
next
  case (Suc n)
  show ?case
  proof (cases "query_fails env (query_calls w)")
    case None
    then show ?thesis by (simp add: pool_query_eq)
  next
    case (Some e)
    then have "retry_loop (Suc n) lastErr (pool_query env stmt) w =
                 retry_loop n e (pool_query env stmt) (w\<lparr>query_calls := Suc (query_calls w)\<rparr>)"
      by (simp add: pool_query_eq)
    also have "\<dots> = (case retry_outcome (query_fails env) n e (Suc (query_calls w)) of
        (None, k') \<Rightarrow> (Inr (), w\<lparr>orders_tbl := stmt (orders_tbl w), query_calls := k'\<rparr>)
      | (Some e, k') \<Rightarrow> (Inl e, w\<lparr>query_calls := k'\<rparr>))"
      by (simp add: Suc.IH split: prod.splits option.splits)
    finally show ?thesis using Some by simp
  qed
qed

lemma retried_query_eq:
  "retry (pool_query env stmt) 3 w =
     (case db_fails env (query_calls w) of
        None \<Rightarrow> (Inr (), w\<lparr>orders_tbl := stmt (orders_tbl w), query_calls := db_next env (query_calls w)\<rparr>)
      | Some e \<Rightarrow> (Inl e, w\<lparr>query_calls := db_next env (query_calls w)\<rparr>))"
  by (simp add: retry_def retry_loop_pool_query db_fails_def db_next_def split: prod.splits option.splits)

lemma publish_eq:
  "publishOrderUpdate env oid ev w =
     (case publish_fails env (pub_calls w) of
        None \<Rightarrow> (Inr (), w\<lparr>bus := bus w @ [(channel_of oid, ev)], pub_calls := Suc (pub_calls w)\<rparr>)
      | Some e \<Rightarrow> (Inl e, w\<lparr>pub_calls := Suc (pub_calls w)\<rparr>))"
  by (simp add: publishOrderUpdate_def Let_def split: option.splits)

subsection \<open>Composing summaries\<close>

lemma effect_refl: "effect env oid w w [] 0 True"
  by (auto simp: effect_def)

lemma effect_trans:
  assumes "effect env oid w w1 tr1 a1 p1" and "effect env oid w1 w2 tr2 a2 p2"
  shows "effect env oid w w2 (tr1 @ tr2) (a1 + a2) (p1 \<and> p2)"
proof -
  from assms obtain evs1 evs2 where
    b1: "bus w1 = bus w @ evs1" "map (\<lambda>m. ev_status (snd m)) evs1 = tr1" and
    b2: "bus w2 = bus w1 @ evs2" "map (\<lambda>m. ev_status (snd m)) evs2 = tr2"
    unfolding effect_def by blast
  have bus: "\<exists>evs. bus w2 = bus w @ evs \<and> map (\<lambda>m. ev_status (snd m)) evs = tr1 @ tr2"
    using b1 b2 by (intro exI [of _ "evs1 @ evs2"]) simp
  have att: "attempts_of w2 oid = attempts_of w oid + (if orders_tbl w oid = None then 0 else a1 + a2)"
    using assms unfolding effect_def by (simp split: if_splits)
  have row: "orders_tbl w2 oid = None \<longleftrightarrow> orders_tbl w oid = None"
    using assms unfolding effect_def by simp
  have le: "pub_calls w \<le> pub_calls w1" "pub_calls w1 \<le> pub_calls w2"
    using assms unfolding effect_def by simp_all
  have p1: "p1 \<longleftrightarrow> (\<forall>k. pub_calls w \<le> k \<and> k < pub_calls w1 \<longrightarrow> publish_fails env k = None)"
    and p2: "p2 \<longleftrightarrow> (\<forall>k. pub_calls w1 \<le> k \<and> k < pub_calls w2 \<longrightarrow> publish_fails env k = None)"
    using assms unfolding effect_def by simp_all
  have pp: "(p1 \<and> p2) \<longleftrightarrow> (\<forall>k. pub_calls w \<le> k \<and> k < pub_calls w2 \<longrightarrow> publish_fails env k = None)"
  proof
    assume h: "p1 \<and> p2"
    show "\<forall>k. pub_calls w \<le> k \<and> k < pub_calls w2 \<longrightarrow> publish_fails env k = None"
    proof (intro allI impI)
      fix k assume k: "pub_calls w \<le> k \<and> k < pub_calls w2"
      show "publish_fails env k = None"
      proof (cases "k < pub_calls w1")
        case True with h k p1 show ?thesis by simp
      next
        case False with h k p2 show ?thesis by simp
      qed
    qed
  next
    assume h: "\<forall>k. pub_calls w \<le> k \<and> k < pub_calls w2 \<longrightarrow> publish_fails env k = None"
    have "p1" unfolding p1 using h le by auto
    moreover have "p2" unfolding p2 using h le by auto
    ultimately show "p1 \<and> p2" by simp
  qed
  from bus att row le pp show ?thesis unfolding effect_def by simp
qed

lemma summD:
  assumes "summ env oid f S" and "f w = (r, w')"
  shows "\<exists>tr a p. effect env oid w w' tr a p \<and> S r tr a p"
proof -
  from assms(1) have "case f w of (r, w') \<Rightarrow> (\<exists>tr a p. effect env oid w w' tr a p \<and> S r tr a p)"
    unfolding summ_def by (rule spec)
  with assms(2) show ?thesis by simp
qed

lemma summI:
  assumes "\<And>w r w'. f w = (r, w') \<Longrightarrow> \<exists>tr a p. effect env oid w w' tr a p \<and> S r tr a p"
  shows "summ env oid f S"
  unfolding summ_def
proof
  fix w
  obtain r w' where f: "f w = (r, w')" by (cases "f w")
  from assms [OF f] f
  show "case f w of (r, w') \<Rightarrow> (\<exists>tr a p. effect env oid w w' tr a p \<and> S r tr a p)" by simp
qed

lemma summ_bind:
  assumes "summ env oid f S1" and "\<And>v. summ env oid (g v) (S2 v)"
  shows "summ env oid (io_bind f g)
           (\<lambda>r tr a p.
              (\<exists>e. r = Inl e \<and> S1 (Inl e) tr a p) \<or>
              (\<exists>v tr1 a1 p1 tr2 a2 p2.
                 S1 (Inr v) tr1 a1 p1 \<and> S2 v r tr2 a2 p2 \<and>
                 tr = tr1 @ tr2 \<and> a = a1 + a2 \<and> p = (p1 \<and> p2)))"
proof (rule summI)
  fix w r w'
  assume b: "io_bind f g w = (r, w')"
  obtain r1 w1 where f: "f w = (r1, w1)" by (cases "f w")
  from summD [OF assms(1) f] obtain tr1 a1 p1 where
    e1: "effect env oid w w1 tr1 a1 p1" and s1: "S1 r1 tr1 a1 p1" by blast
  show "\<exists>tr a p. effect env oid w w' tr a p \<and>
          ((\<exists>e. r = Inl e \<and> S1 (Inl e) tr a p) \<or>
           (\<exists>v tr1 a1 p1 tr2 a2 p2.
              S1 (Inr v) tr1 a1 p1 \<and> S2 v r tr2 a2 p2 \<and>
              tr = tr1 @ tr2 \<and> a = a1 + a2 \<and> p = (p1 \<and> p2)))"
  proof (cases r1)
    case (Inl e)
    with f b have "r = Inl e" "w' = w1" by (simp_all add: io_bind_def)
    with e1 s1 Inl show ?thesis by blast
  next
    case (Inr v)
    with f b have g: "g v w1 = (r, w')" by (simp add: io_bind_def)
    from summD [OF assms(2) g] obtain tr2 a2 p2 where
      e2: "effect env oid w1 w' tr2 a2 p2" and s2: "S2 v r tr2 a2 p2" by blast
    from effect_trans [OF e1 e2] s1 s2 Inr show ?thesis by blast
  qed
qed

lemma summ_try:
  assumes "summ env oid f S1" and "\<And>e. summ env oid (h e) (S2 e)"
  shows "summ env oid (try_catch f h)
           (\<lambda>r tr a p.
              (\<exists>v. r = Inr v \<and> S1 (Inr v) tr a p) \<or>
              (\<exists>e tr1 a1 p1 tr2 a2 p2.
                 S1 (Inl e) tr1 a1 p1 \<and> S2 e r tr2 a2 p2 \<and>
                 tr = tr1 @ tr2 \<and> a = a1 + a2 \<and> p = (p1 \<and> p2)))"
proof (rule summI)
  fix w r w'
  assume b: "try_catch f h w = (r, w')"
  obtain r1 w1 where f: "f w = (r1, w1)" by (cases "f w")
  from summD [OF assms(1) f] obtain tr1 a1 p1 where
    e1: "effect env oid w w1 tr1 a1 p1" and s1: "S1 r1 tr1 a1 p1" by blast
  show "\<exists>tr a p. effect env oid w w' tr a p \<and>
          ((\<exists>v. r = Inr v \<and> S1 (Inr v) tr a p) \<or>
           (\<exists>e tr1 a1 p1 tr2 a2 p2.
              S1 (Inl e) tr1 a1 p1 \<and> S2 e r tr2 a2 p2 \<and>
              tr = tr1 @ tr2 \<and> a = a1 + a2 \<and> p = (p1 \<and> p2)))"
  proof (cases r1)
    case (Inr v)
    with f b have "r = Inr v" "w' = w1" by (simp_all add: try_catch_def)
    with e1 s1 Inr show ?thesis by blast
  next
    case (Inl e)
    with f b have g: "h e w1 = (r, w')" by (simp add: try_catch_def)
    from summD [OF assms(2) g] obtain tr2 a2 p2 where
      e2: "effect env oid w1 w' tr2 a2 p2" and s2: "S2 e r tr2 a2 p2" by blast
    from effect_trans [OF e1 e2] s1 s2 Inl show ?thesis by blast
  qed
qed

lemma summ_weaken:
  assumes "summ env oid f S" and "\<And>r tr a p. S r tr a p \<Longrightarrow> S' r tr a p"
  shows "summ env oid f S'"
proof (rule summI)
  fix w r w'
  assume "f w = (r, w')"
  from summD [OF assms(1) this] assms(2)
  show "\<exists>tr a p. effect env oid w w' tr a p \<and> S' r tr a p" by blast
qed

lemma summ_pure: "summ env oid (\<lambda>w. (r0, w)) (\<lambda>r tr a p. r = r0 \<and> tr = [] \<and> a = 0 \<and> p)"
  unfolding summ_def using effect_refl [of env oid] by auto

lemma summ_return: "summ env oid (io_return v) (\<lambda>r tr a p. r = Inr v \<and> tr = [] \<and> a = 0 \<and> p)"
  unfolding summ_def io_return_def using effect_refl [of env oid] by auto

lemma summ_throw: "summ env oid (io_throw e) (\<lambda>r tr a p. r = Inl e \<and> tr = [] \<and> a = 0 \<and> p)"
  unfolding summ_def io_throw_def using effect_refl [of env oid] by auto

subsection \<open>Summaries of the operations and of the blocks of the worker\<close>

lemma summ_publish:
  "summ env oid (publishOrderUpdate env oid' ev)
     (\<lambda>r tr a p. a = 0 \<and> ((r = Inr () \<and> tr = [ev_status ev] \<and> p) \<or> (\<exists>e. r = Inl e \<and> tr = [] \<and> \<not> p)))"
proof (rule summI)
  fix w r w'
  assume h: "publishOrderUpdate env oid' ev w = (r, w')"
  show "\<exists>tr a p. effect env oid w w' tr a p \<and> a = 0 \<and>
          ((r = Inr () \<and> tr = [ev_status ev] \<and> p) \<or> (\<exists>e. r = Inl e \<and> tr = [] \<and> \<not> p))"
  proof (cases "publish_fails env (pub_calls w)")
    case None
    with h have r: "r = Inr ()" and w': "w' = w\<lparr>bus := bus w @ [(channel_of oid', ev)], pub_calls := Suc (pub_calls w)\<rparr>"
      by (simp_all add: publish_eq)
    have "\<forall>k. pub_calls w \<le> k \<and> k < Suc (pub_calls w) \<longrightarrow> publish_fails env k = None"
      using None by (auto simp: less_Suc_eq_le)
    then have "effect env oid w w' [ev_status ev] 0 True"
      unfolding effect_def w' by (simp add: attempts_of_def)
    with r show ?thesis by blast
  next
    case (Some e)
    with h have r: "r = Inl e" and w': "w' = w\<lparr>pub_calls := Suc (pub_calls w)\<rparr>"
      by (simp_all add: publish_eq)
    have "\<not> (\<forall>k. pub_calls w \<le> k \<and> k < Suc (pub_calls w) \<longrightarrow> publish_fails env k = None)"
      using Some by auto
    then have "effect env oid w w' [] 0 False"
      unfolding effect_def w' by (simp add: attempts_of_def)
    with r show ?thesis by blast
  qed
qed

lemma attempts_of_update_status:
  "attempts_of (w\<lparr>orders_tbl := update_status_sql oid st d e t x r (orders_tbl w), query_calls := k\<rparr>) oid
     = attempts_of w oid + (if orders_tbl w oid = None then 0 else d)"
  by (simp add: attempts_of_def update_status_sql_def split: option.splits)

lemma summ_updateOrderStatus:
  "summ env oid (updateOrderStatus env oid st opts)
     (\<lambda>r tr a p. tr = [] \<and> p \<and>
        ((r = Inr () \<and> a = COALESCE (attemptsDelta opts) 0) \<or> (\<exists>e. r = Inl e \<and> a = 0)))"
proof (rule summI)
  fix w r w'
  assume h: "updateOrderStatus env oid st opts w = (r, w')"
  let ?d = "COALESCE (attemptsDelta opts) 0"
  show "\<exists>tr a p. effect env oid w w' tr a p \<and> tr = [] \<and> p \<and>
          ((r = Inr () \<and> a = ?d) \<or> (\<exists>e. r = Inl e \<and> a = 0))"
  proof (cases "db_fails env (query_calls w)")
    case None
    with h have r: "r = Inr ()" and
      w': "w' = w\<lparr>orders_tbl := update_status_sql oid st ?d (opt_error opts) (txHash opts)
                      (executedPrice opts) (COALESCE (routing opts) Map.empty) (orders_tbl w),
                  query_calls := db_next env (query_calls w)\<rparr>"
      by (simp_all add: updateOrderStatus_def retried_query_eq)
    have "effect env oid w w' [] ?d True"
      unfolding effect_def w' attempts_of_update_status
      by (auto simp: update_status_sql_def split: option.splits)
    with r show ?thesis by blast
  next
    case (Some e)
    with h have r: "r = Inl e" and w': "w' = w\<lparr>query_calls := db_next env (query_calls w)\<rparr>"
      by (simp_all add: updateOrderStatus_def retried_query_eq)
    have "effect env oid w w' [] 0 True"
      unfolding effect_def w' by (auto simp: attempts_of_def)
    with r show ?thesis by blast
  qed
qed

lemma summ_setRoutingInfo:
  "summ env oid (setRoutingInfo env oid' ri) (\<lambda>r tr a p. tr = [] \<and> p \<and> a = 0)"
proof (rule summI)
  fix w r w'
  assume h: "setRoutingInfo env oid' ri w = (r, w')"
  have "effect env oid w w' [] 0 True"
  proof (cases "db_fails env (query_calls w)")
    case None
    with h have w': "w' = w\<lparr>orders_tbl := set_routing_sql oid' ri (orders_tbl w),
                  query_calls := db_next env (query_calls w)\<rparr>"
      by (simp_all add: setRoutingInfo_def retried_query_eq)
    show ?thesis
      unfolding effect_def w'
      by (auto simp: attempts_of_def set_routing_sql_def split: option.splits)
  next
    case (Some e)
    with h have w': "w' = w\<lparr>query_calls := db_next env (query_calls w)\<rparr>"
      by (simp_all add: setRoutingInfo_def retried_query_eq)
    show ?thesis unfolding effect_def w' by (auto simp: attempts_of_def)
  qed
  then show "\<exists>tr a p. effect env oid w w' tr a p \<and> tr = [] \<and> p \<and> a = 0" by blast
qed

lemma summ_executeSwap_io:
  "summ env oid (executeSwap_io renv params)
     (\<lambda>r tr a p. fst (executeSwap renv params) = r \<and> tr = [] \<and> a = 0 \<and> p)"
proof (rule summI)
  fix w r w'
  assume h: "executeSwap_io renv params w = (r, w')"
  obtain r0 l where e: "executeSwap renv params = (r0, l)" by (cases "executeSwap renv params")
  with h have r: "r = r0" and w': "w' = w\<lparr>chain := chain w @ l\<rparr>"
    by (simp_all add: executeSwap_io_def)
  have "effect env oid w w' [] 0 True"
    unfolding effect_def w' by (auto simp: attempts_of_def)
  with r e show "\<exists>tr a p. effect env oid w w' tr a p \<and> fst (executeSwap renv params) = r \<and> tr = [] \<and> a = 0 \<and> p"
    by auto
qed


lemma summ_case_prod:
  assumes "\<And>x y. summ env oid (g x y) (S x y)"
  shows "summ env oid (case v of (x, y) \<Rightarrow> g x y) (case v of (x, y) \<Rightarrow> S x y)"
  using assms by (cases v) simp

lemma summ_on_execution_error:
  "summ env (orderId j) (on_execution_error env j err)
     (\<lambda>r tr a p.
        (\<exists>e. r = Inl e \<and> tr = [] \<and> a = 0 \<and> \<not> p) \<or>
        (\<exists>e. r = Inl e \<and> tr = [Failed] \<and> a = 0 \<and> p) \<or>
        (r = Inl err \<and> tr = [Failed] \<and> a = 1 \<and> p))"
  unfolding on_execution_error_def
  apply (rule summ_weaken)
   apply (rule summ_bind)
    apply (rule summ_publish)
   apply (rule summ_bind)
    apply (rule summ_updateOrderStatus)
   apply (rule summ_throw)
  apply (auto simp: mk_event_def no_opts_def)
  done

lemma summ_execute_and_confirm:
  "summ env (orderId j) (execute_and_confirm env j amountBn q)
     (\<lambda>r tr a p. a = 0 \<and>
        ((\<exists>e. r = Inl e \<and> tr = [] \<and> \<not> p) \<or>
         (\<exists>e. r = Inl e \<and> tr = [Submitted] \<and> p \<and>
               fst (executeSwap (router env) (swap_params_of env j amountBn q)) = Inl e) \<or>
         (\<exists>e res. r = Inl e \<and> tr = [Submitted] \<and> \<not> p \<and>
               fst (executeSwap (router env) (swap_params_of env j amountBn q)) = Inr res) \<or>
         (\<exists>e res. r = Inl e \<and> tr = [Submitted, Confirmed] \<and> p \<and>
               fst (executeSwap (router env) (swap_params_of env j amountBn q)) = Inr res) \<or>
         (\<exists>res. r = Inr () \<and> tr = [Submitted, Confirmed] \<and> p \<and>
               fst (executeSwap (router env) (swap_params_of env j amountBn q)) = Inr res)))"
  unfolding execute_and_confirm_def
  apply (rule summ_weaken)
   apply (rule summ_bind)
    apply (rule summ_publish)
   apply (rule summ_bind)
    apply (rule summ_executeSwap_io)
   apply (rule summ_bind)
    apply (rule summ_publish)
   apply (rule summ_bind)
    apply (rule summ_updateOrderStatus)
   apply (rule summ_return)
  apply (auto simp: mk_event_def)
  done


lemma summ_reassert_pending:
  "summ env (orderId j) (reassert_pending env j)
     (\<lambda>r tr a p. a = 0 \<and>
        ((\<exists>e. r = Inl e \<and> tr = [] \<and> \<not> p) \<or>
         (\<exists>e. r = Inl e \<and> tr = [Pending] \<and> p) \<or>
         (r = Inr () \<and> tr = [Pending] \<and> p)))"
  unfolding reassert_pending_def
  apply (rule summ_weaken)
   apply (rule summ_bind)
    apply (rule summ_publish)
   apply (rule summ_updateOrderStatus)
  apply (auto simp: mk_event_def no_opts_def)
  done

lemma summ_worker_setup:
  "summ env oid (worker_setup env j)
     (\<lambda>r tr a p. tr = [] \<and> a = 0 \<and> p \<and>
        (\<forall>amt. r = Inr amt \<longrightarrow> amount_in j = Some amt \<and> setup_fails env = None))"
  unfolding summ_def worker_setup_def io_throw_def io_return_def
  using effect_refl [of env oid] by (auto split: option.splits)

lemma summ_routing_phase:
  "summ env (orderId j) (routing_phase env j amountBn)
     (\<lambda>r tr a p. a = 0 \<and>
        ((\<exists>e. r = Inl e \<and> (tr = [] \<or> tr = [Routing] \<or> tr = [Routing, Building])) \<or>
         (\<exists>q. r = Inr q \<and> tr = [Routing, Building] \<and> p \<and>
               getBestQuote (router env) (quote_params_of env j amountBn) = Inr q)))"
  unfolding routing_phase_def
  apply (rule summ_weaken)
   apply (rule summ_bind)
    apply (rule summ_publish)
   apply (rule summ_bind)
    apply (rule summ_pure)
   apply (rule summ_bind)
    apply (rule summ_setRoutingInfo)
   apply (rule summ_bind)
    apply (rule summ_publish)
   apply (rule summ_bind)
    apply (rule summ_updateOrderStatus)
   apply (rule summ_return)
  apply (auto simp: mk_event_def no_opts_def)
  done

lemma summ_before_execution:
  "summ env (orderId j) (before_execution env j)
     (\<lambda>r tr a p. a = 0 \<and>
        ((\<exists>e. r = Inl e \<and>
              (tr = [] \<or> tr = [Pending] \<or> tr = [Pending, Routing] \<or>
               tr = [Pending, Routing, Building])) \<or>
         (\<exists>amt q. r = Inr (amt, q) \<and> tr = [Pending, Routing, Building] \<and> p \<and>
               setup_fails env = None \<and> amount_in j = Some amt \<and>
               getBestQuote (router env) (quote_params_of env j amt) = Inr q)))"
  unfolding before_execution_def
  apply (rule summ_weaken)
   apply (rule summ_bind)
    apply (rule summ_reassert_pending)
   apply (rule summ_bind)
    apply (rule summ_worker_setup)
   apply (rule summ_bind)
    apply (rule summ_routing_phase)
   apply (rule summ_return)
  apply auto
  done


lemma summ_execution:
  "summ env (orderId j)
     (try_catch (execute_and_confirm env j amountBn q) (on_execution_error env j))
     (\<lambda>r tr a p.
        (r = Inr () \<and> a = 0 \<and> p \<and> tr = [Submitted, Confirmed]) \<or>
        (\<exists>e t. r = Inl e \<and> (t = [] \<or> t = [Submitted] \<or> t = [Submitted, Confirmed]) \<and>
             (tr = t \<and> a = 0 \<or> tr = t @ [Failed] \<and> (a = 0 \<or> a = 1))))"
  apply (rule summ_weaken)
   apply (rule summ_try)
    apply (rule summ_execute_and_confirm)
   apply (rule summ_on_execution_error)
  apply (elim disjE exE conjE; simp)
     apply auto
  done

lemma summ_worker:
  "summ env (orderId j) (worker env j)
     (\<lambda>r tr a p.
        (\<exists>e. r = Inl e \<and> a = 0 \<and>
             (tr = [] \<or> tr = [Pending] \<or> tr = [Pending, Routing] \<or>
              tr = [Pending, Routing, Building])) \<or>
        (r = Inr () \<and> a = 0 \<and> p \<and> tr = [Pending, Routing, Building, Submitted, Confirmed]) \<or>
        (\<exists>e t. r = Inl e \<and>
             (t = [Pending, Routing, Building] \<or> t = [Pending, Routing, Building, Submitted] \<or>
              t = [Pending, Routing, Building, Submitted, Confirmed]) \<and>
             (tr = t \<and> a = 0 \<or> tr = t @ [Failed] \<and> (a = 0 \<or> a = 1))))"
  unfolding worker_def
  apply (rule summ_weaken)
   apply (rule summ_try)
    apply (rule summ_bind)
     apply (rule summ_before_execution)
    apply (rule summ_case_prod)
    apply (rule summ_execution)
   apply (rule summ_throw)
  apply (elim disjE exE conjE; simp split: prod.splits)
  apply (elim disjE exE conjE; simp)
    apply auto
  done

lemma worker_facts:
  assumes "worker env j w = (r, w')"
  shows "\<exists>tr a p. effect env (orderId j) w w' tr a p \<and>
           ((Confirmed \<in> set tr \<and> (\<exists>e. r = Inl e)) \<or>
            subseq tr [Pending, Routing, Building, Submitted, Confirmed] \<or>
            subseq tr [Pending, Routing, Building, Submitted, Failed]) \<and>
           (tr = [] \<or> hd tr = Pending) \<and>
           (a = 0 \<or> a = 1) \<and>
           (a = 1 \<longrightarrow> (\<exists>e. r = Inl e) \<and> last tr = Failed) \<and>
           (\<forall>v. r = Inr v \<longrightarrow> p \<and> a = 0 \<and> tr = [Pending, Routing, Building, Submitted, Confirmed])"
proof -
  from summD [OF summ_worker assms] obtain tr a p where
    e: "effect env (orderId j) w w' tr a p" and
    s: "(\<exists>e. r = Inl e \<and> a = 0 \<and>
             (tr = [] \<or> tr = [Pending] \<or> tr = [Pending, Routing] \<or>
              tr = [Pending, Routing, Building])) \<or>
        (r = Inr () \<and> a = 0 \<and> p \<and> tr = [Pending, Routing, Building, Submitted, Confirmed]) \<or>
        (\<exists>e t. r = Inl e \<and>
             (t = [Pending, Routing, Building] \<or> t = [Pending, Routing, Building, Submitted] \<or>
              t = [Pending, Routing, Building, Submitted, Confirmed]) \<and>
             (tr = t \<and> a = 0 \<or> tr = t @ [Failed] \<and> (a = 0 \<or> a = 1)))"
    by blast
  from s have "(Confirmed \<in> set tr \<and> (\<exists>e. r = Inl e)) \<or>
            subseq tr [Pending, Routing, Building, Submitted, Confirmed] \<or>
            subseq tr [Pending, Routing, Building, Submitted, Failed]"
    by (elim disjE exE conjE) simp_all
  moreover from s have "tr = [] \<or> hd tr = Pending" by (elim disjE exE conjE) simp_all
  moreover from s have "a = 0 \<or> a = 1" by auto
  moreover from s have "a = 1 \<longrightarrow> (\<exists>e. r = Inl e) \<and> last tr = Failed" by auto
  moreover from s have "\<forall>v. r = Inr v \<longrightarrow> p \<and> a = 0 \<and> tr = [Pending, Routing, Building, Submitted, Confirmed]"
    by auto
  ultimately show ?thesis using e by blast
qed

subsection \<open>A run without failures, step by step\<close>

lemma run_without_failures:
  assumes nf: "no_failures env" and amt: "amount_in j = Some amountBn"
    and q: "getBestQuote (router env) (quote_params_of env j amountBn) = Inr q"
    and x: "executeSwap (router env) (swap_params_of env j amountBn q) = (X, l)"
  shows "fst (worker env j w) = (case X of Inl err \<Rightarrow> Inl err | Inr res \<Rightarrow> Inr ())"
    and "map (\<lambda>m. ev_status (snd m)) (drop (length (bus w)) (bus (snd (worker env j w)))) =
           [Pending, Routing, Building, Submitted] @
           (case X of Inl err \<Rightarrow> [Failed] | Inr res \<Rightarrow> [Confirmed])"
    and "orders_tbl (snd (worker env j w)) =
           (case X of
              Inl err \<Rightarrow>
                update_status_sql (orderId j) Failed 1 (Some (String_of err)) None None Map.empty
              | Inr res \<Rightarrow>
                update_status_sql (orderId j) Confirmed 0 None (txId res) (executedOutBn res)
                  [''chosen'' \<mapsto> JDex (dex q)])
             (update_status_sql (orderId j) Routing 0 None None None Map.empty
               (set_routing_sql (orderId j)
                  [''chosen'' \<mapsto> JDex (dex q), ''estimatedOut'' \<mapsto> JDecimal (outAmountBn q),
                   ''details'' \<mapsto> JDetails (details q)]
                 (update_status_sql (orderId j) Pending 0 None None None Map.empty (orders_tbl w))))"
proof -
  from nf have p: "\<And>k. publish_fails env k = None" and d: "\<And>k. db_fails env k = None"
    and s: "setup_fails env = None"
    by (simp_all add: no_failures_def)
  note ev = worker_def before_execution_def reassert_pending_def worker_setup_def routing_phase_def
    execute_and_confirm_def on_execution_error_def executeSwap_io_def
    updateOrderStatus_def setRoutingInfo_def retried_query_eq publish_eq
    io_bind_def try_catch_def io_return_def io_throw_def d p s amt q x
    mk_event_def no_opts_def
  show "fst (worker env j w) = (case X of Inl err \<Rightarrow> Inl err | Inr res \<Rightarrow> Inr ())"
    by (cases X) (simp_all add: ev)
  show "map (\<lambda>m. ev_status (snd m)) (drop (length (bus w)) (bus (snd (worker env j w)))) =
           [Pending, Routing, Building, Submitted] @
           (case X of Inl err \<Rightarrow> [Failed] | Inr res \<Rightarrow> [Confirmed])"
    by (cases X) (simp_all add: ev)
  show "orders_tbl (snd (worker env j w)) =
           (case X of
              Inl err \<Rightarrow>
                update_status_sql (orderId j) Failed 1 (Some (String_of err)) None None Map.empty
              | Inr res \<Rightarrow>
                update_status_sql (orderId j) Confirmed 0 None (txId res) (executedOutBn res)
                  [''chosen'' \<mapsto> JDex (dex q)])
             (update_status_sql (orderId j) Routing 0 None None None Map.empty
               (set_routing_sql (orderId j)
                  [''chosen'' \<mapsto> JDex (dex q), ''estimatedOut'' \<mapsto> JDecimal (outAmountBn q),
                   ''details'' \<mapsto> JDetails (details q)]
                 (update_status_sql (orderId j) Pending 0 None None None Map.empty (orders_tbl w))))"
    by (cases X) (simp_all add: ev)
qed

subsection \<open>Evaluating concrete runs\<close>

lemmas run_defs =
  worker_def before_execution_def reassert_pending_def worker_setup_def routing_phase_def
  execute_and_confirm_def on_execution_error_def executeSwap_io_def
  updateOrderStatus_def setRoutingInfo_def retried_query_eq publish_eq
  io_bind_def try_catch_def io_return_def io_throw_def mk_event_def no_opts_def

lemmas input_defs =
  env_ok_def job0_def row0_def world0_def env_swap_fails_def env_db_down_def env_bus_down_def
  env_failed_unpublished_def env_confirmed_unpublished_def
  quote_params_of_def swap_params_of_def

lemma db_fails_3:
  "db_fails env k =
     (case query_fails env k of None \<Rightarrow> None
      | Some e1 \<Rightarrow> (case query_fails env (Suc k) of None \<Rightarrow> None
         | Some e2 \<Rightarrow> (case query_fails env (Suc (Suc k)) of None \<Rightarrow> None | Some e3 \<Rightarrow> Some e3)))"
  "db_next env k =
     (case query_fails env k of None \<Rightarrow> Suc k
      | Some e1 \<Rightarrow> (case query_fails env (Suc k) of None \<Rightarrow> Suc (Suc k)
         | Some e2 \<Rightarrow> Suc (Suc (Suc k))))"
  by (simp_all add: db_fails_def db_next_def numeral_3_eq_3 split: option.splits)

lemma getBestQuote_env0 [simp]:
  "getBestQuote env0 \<lparr>amountInBn = 1000000, tokenIn = Some ''A'', tokenOut = Some ''B'',
      meteoraPoolAddress = Some ''pool-m'', raydiumPoolId = Some ''pool-r''\<rparr>
   = Inr \<lparr>dex = Mock, outAmountBn = 994900, details = Simulated\<rparr>"
  by (simp add: getBestQuote_def collect_quotes_def getMeteoraQuote_def getRaydiumQuote_def
        env0_def mock_quote_def bn_div_def)

lemma getBestQuote_raydium_down [simp]:
  "getBestQuote raydium_down \<lparr>amountInBn = 1000000, tokenIn = Some ''A'', tokenOut = Some ''B'',
      meteoraPoolAddress = Some ''pool-m'', raydiumPoolId = Some ''pool-r''\<rparr>
   = Inr \<lparr>dex = Meteora, outAmountBn = 100, details = Venue_details ''meteora-payload''\<rparr>"
  by (simp add: getBestQuote_def collect_quotes_def getMeteoraQuote_def getRaydiumQuote_def
        env0_def raydium_down_def array_sort_def)


lemma executeSwap_env0 [simp]:
  "executeSwap env0 \<lparr>amountInBn = 1000000, tokenIn = Some ''A'', tokenOut = Some ''B'',
      meteoraPoolAddress = Some ''pool-m'', raydiumPoolId = Some ''pool-r'', p_dex = Mock\<rparr>
   = (Inr \<lparr>txId = Some ''MOCK-0'', executedOutBn = Some 994900, res_dex = Mock, simulated = True\<rparr>, [])"
  by (simp add: executeSwap_def env0_def bn_div_def)

lemma executeSwap_raydium_down [simp]:
  "executeSwap raydium_down \<lparr>amountInBn = 1000000, tokenIn = Some ''A'', tokenOut = Some ''B'',
      meteoraPoolAddress = Some ''pool-m'', raydiumPoolId = Some ''pool-r'', p_dex = Meteora\<rparr>
   = (Inl (Error ''Error: swap rejected''), [])"
  by (simp add: executeSwap_def swap_on_venue_def env0_def raydium_down_def WSOL_MINT_def)

subsection \<open>From summaries to runs\<close>

lemma effect_run_statuses:
  assumes "effect env oid w (snd (worker env j w)) tr a p"
  shows "run_statuses env j w = tr"
  using assms unfolding effect_def run_statuses_def by auto

lemma worker_after_failed_start:
  assumes "before_execution env j w = (Inl e, w1)"
  shows "worker env j w = (Inl e, w1)"
  using assms by (simp add: worker_def io_bind_def try_catch_def io_throw_def)

lemma swap_outcomeD:
  assumes "swap_outcome env j = Some x"
  obtains amountBn q l where "amount_in j = Some amountBn"
    and "getBestQuote (router env) (quote_params_of env j amountBn) = Inr q"
    and "executeSwap (router env) (swap_params_of env j amountBn q) = (x, l)"
proof -
  from assms obtain amountBn where a: "amount_in j = Some amountBn"
    by (auto simp: swap_outcome_def split: option.splits)
  with assms obtain q where q: "getBestQuote (router env) (quote_params_of env j amountBn) = Inr q"
    by (auto simp: swap_outcome_def split: sum.splits)
  with a assms have "fst (executeSwap (router env) (swap_params_of env j amountBn q)) = x"
    by (simp add: swap_outcome_def)
  then obtain l where "executeSwap (router env) (swap_params_of env j amountBn q) = (x, l)"
    by (cases "executeSwap (router env) (swap_params_of env j amountBn q)") auto
  with a q that show ?thesis by blast
qed

lemma updateOrderStatus_returns:
  assumes "updateOrderStatus env oid st opts w = (Inr v, w')"
  shows "orders_tbl w' =
           update_status_sql oid st (COALESCE (attemptsDelta opts) 0) (opt_error opts) (txHash opts)
             (executedPrice opts) (COALESCE (routing opts) Map.empty) (orders_tbl w)"
  using assms by (auto simp: updateOrderStatus_def retried_query_eq split: option.splits)

lemma setRoutingInfo_returns:
  assumes "setRoutingInfo env oid r w = (Inr v, w')"
  shows "orders_tbl w' = set_routing_sql oid r (orders_tbl w)"
  using assms by (auto simp: setRoutingInfo_def retried_query_eq split: option.splits)

lemma reassert_pending_returns:
  assumes "reassert_pending env j w = (Inr v, w')"
  shows "orders_tbl w' =
           update_status_sql (orderId j) Pending 0 None None None Map.empty (orders_tbl w)"
proof (cases "publish_fails env (pub_calls w)")
  case None
  with assms have "updateOrderStatus env (orderId j) Pending no_opts
      (w\<lparr>bus := bus w @ [(channel_of (orderId j), mk_event (orderId j) Pending)],
         pub_calls := Suc (pub_calls w)\<rparr>) = (Inr v, w')"
    by (simp add: reassert_pending_def io_bind_def publish_eq)
  from updateOrderStatus_returns [OF this] show ?thesis by (simp add: no_opts_def)
next
  case (Some e)
  with assms show ?thesis by (simp add: reassert_pending_def io_bind_def publish_eq)
qed

section \<open>The lifecycle events of a run\<close>

text \<open>
  Claim C1, as stated, fails in two ways.  First, on a run that fails while routing: in
  the run below the first query goes through and the database rejects every later one,
  so \<^verbatim>\<open>setRoutingInfo\<close> throws after its three tries and the outer handler rethrows
  without publishing; the statuses published are pending and routing, and the sequence
  does not end with confirmed or failed.  Second, across deliveries of the same job:
  when \<^verbatim>\<open>executeSwap\<close> throws, the worker rethrows so that the queue delivers the job
  again, and the second run starts over from pending; in the statuses published for
  the order, failed is then followed by pending, and failed occurs twice.
\<close>

theorem lifecycle_claim_fails:
  "run_statuses env_db_down job0 world0 = [Pending, Routing] \<and>
   \<not> lifecycle_complete (run_statuses env_db_down job0 world0) \<and>
   map (\<lambda>m. ev_status (snd m))
     (bus (snd (worker env_swap_fails job0 (snd (worker env_swap_fails job0 world0))))) =
     [Pending, Routing, Building, Submitted, Failed,
      Pending, Routing, Building, Submitted, Failed] \<and>
   \<not> lifecycle_complete
     (map (\<lambda>m. ev_status (snd m))
        (bus (snd (worker env_swap_fails job0 (snd (worker env_swap_fails job0 world0))))))"
proof -
  have r: "run_statuses env_db_down job0 world0 = [Pending, Routing]"
    unfolding run_statuses_def
    by (simp add: run_defs db_fails_3 env_db_down_def env_ok_def job0_def world0_def
          quote_params_of_def)
  have t: "map (\<lambda>m. ev_status (snd m))
     (bus (snd (worker env_swap_fails job0 (snd (worker env_swap_fails job0 world0))))) =
     [Pending, Routing, Building, Submitted, Failed,
      Pending, Routing, Building, Submitted, Failed]"
    by (simp add: run_defs db_fails_3 input_defs)
  have n: "\<not> subseq [Pending, Routing, Building, Submitted, Failed,
      Pending, Routing, Building, Submitted, Failed] xs" if "length xs = 5" for xs
    using that list_emb_length [of "(=)" "[Pending, Routing, Building, Submitted, Failed,
      Pending, Routing, Building, Submitted, Failed]" xs] by auto
  from r t n show ?thesis by (simp add: lifecycle_complete_def)
qed

text \<open>
  Claim C1, amended.  In every single run of the worker (one delivery of the job) in
  which the worker does not throw after having published confirmed, the statuses
  published are, in this order and without repetition, a subsequence of pending,
  routing, building, submitted, confirmed or of pending, routing, building, submitted,
  failed.  In every run, when anything is published the first status is pending.  In a
  run in which no publish is rejected, no persistence call throws and the setup does
  not throw, the statuses are exactly pending, routing, building, submitted and then
  confirmed when \<^verbatim>\<open>executeSwap\<close> returns, failed when it throws.  A run that fails
  before the execution block publishes neither confirmed nor failed.
\<close>

theorem published_statuses_follow_lifecycle:
  "(\<not> (Confirmed \<in> set (run_statuses env j w) \<and> (\<exists>e. fst (worker env j w) = Inl e)) \<longrightarrow>
      subseq (run_statuses env j w) [Pending, Routing, Building, Submitted, Confirmed] \<or>
      subseq (run_statuses env j w) [Pending, Routing, Building, Submitted, Failed]) \<and>
   (run_statuses env j w = [] \<or> hd (run_statuses env j w) = Pending) \<and>
   (\<forall>x. no_failures env \<and> swap_outcome env j = Some x \<longrightarrow>
        run_statuses env j w =
          [Pending, Routing, Building, Submitted] @
          (case x of Inl err \<Rightarrow> [Failed] | Inr res \<Rightarrow> [Confirmed])) \<and>
   (\<forall>e w1. before_execution env j w = (Inl e, w1) \<longrightarrow>
        Confirmed \<notin> set (run_statuses env j w) \<and> Failed \<notin> set (run_statuses env j w))"
proof -
  obtain r w' where run: "worker env j w = (r, w')" by (cases "worker env j w")
  from worker_facts [OF run] obtain tr a p where
    e: "effect env (orderId j) w w' tr a p" and
    o: "(Confirmed \<in> set tr \<and> (\<exists>e. r = Inl e)) \<or>
        subseq tr [Pending, Routing, Building, Submitted, Confirmed] \<or>
        subseq tr [Pending, Routing, Building, Submitted, Failed]" and
    h: "tr = [] \<or> hd tr = Pending"
    by blast
  from e run have tr: "run_statuses env j w = tr" by (simp add: effect_run_statuses)
  from o run have ord: "\<not> (Confirmed \<in> set tr \<and> (\<exists>e. fst (worker env j w) = Inl e)) \<longrightarrow>
      subseq tr [Pending, Routing, Building, Submitted, Confirmed] \<or>
      subseq tr [Pending, Routing, Building, Submitted, Failed]"
    by auto
  have ok: "run_statuses env j w =
          [Pending, Routing, Building, Submitted] @
          (case x of Inl err \<Rightarrow> [Failed] | Inr res \<Rightarrow> [Confirmed])"
    if "no_failures env \<and> swap_outcome env j = Some x" for x
  proof -
    from that have nf: "no_failures env" and so: "swap_outcome env j = Some x" by simp_all
    from so obtain amountBn q l where "amount_in j = Some amountBn"
      and "getBestQuote (router env) (quote_params_of env j amountBn) = Inr q"
      and "executeSwap (router env) (swap_params_of env j amountBn q) = (x, l)"
      by (rule swap_outcomeD)
    from run_without_failures(2) [OF nf this] show ?thesis by (simp add: run_statuses_def)
  qed
  have early: "Confirmed \<notin> set (run_statuses env j w) \<and> Failed \<notin> set (run_statuses env j w)"
    if b: "before_execution env j w = (Inl e, w1)" for e w1
  proof -
    from summD [OF summ_before_execution b] obtain tr1 a1 p1 where
      e1: "effect env (orderId j) w w1 tr1 a1 p1" and
      s1: "tr1 = [] \<or> tr1 = [Pending] \<or> tr1 = [Pending, Routing] \<or>
           tr1 = [Pending, Routing, Building]"
      by blast
    from worker_after_failed_start [OF b] e1 have "run_statuses env j w = tr1"
      by (simp add: effect_run_statuses)
    with s1 show ?thesis by auto
  qed
  from ord h ok early show ?thesis unfolding tr by blast
qed

theorem published_statuses_follow_lifecycle_witness:
  "no_failures env_ok \<and> no_failures env_swap_fails \<and>
   swap_outcome env_swap_fails job0 = Some (Inl (Error ''Error: swap rejected'')) \<and>
   run_statuses env_swap_fails job0 world0 = [Pending, Routing, Building, Submitted, Failed] \<and>
   run_statuses env_ok job0 world0 = [Pending, Routing, Building, Submitted, Confirmed] \<and>
   Confirmed \<notin> set (run_statuses env_failed_unpublished job0 world0) \<and>
   subseq (run_statuses env_failed_unpublished job0 world0)
     [Pending, Routing, Building, Submitted, Failed] \<and>
   fst (before_execution env_db_down job0 world0) = Inl (Error ''Error: db down'') \<and>
   Confirmed \<notin> set (run_statuses env_db_down job0 world0) \<and>
   Failed \<notin> set (run_statuses env_db_down job0 world0)"
proof -
  have n1: "no_failures env_ok" and n2: "no_failures env_swap_fails"
    by (simp_all add: no_failures_def db_fails_3 env_ok_def env_swap_fails_def)
  have s1: "swap_outcome env_ok job0 =
              Some (Inr \<lparr>txId = Some ''MOCK-0'', executedOutBn = Some 994900, res_dex = Mock,
                         simulated = True\<rparr>)"
    by (simp add: swap_outcome_def input_defs)
  have s2: "swap_outcome env_swap_fails job0 = Some (Inl (Error ''Error: swap rejected''))"
    by (simp add: swap_outcome_def input_defs)
  have b1: "fst (before_execution env_db_down job0 world0) = Inl (Error ''Error: db down'')"
    by (simp add: run_defs db_fails_3 input_defs)
  then have b: "before_execution env_db_down job0 world0 =
             (Inl (Error ''Error: db down''), snd (before_execution env_db_down job0 world0))"
    by (simp add: prod_eq_iff)
  have u: "run_statuses env_failed_unpublished job0 world0 =
             [Pending, Routing, Building, Submitted]"
    unfolding run_statuses_def by (simp add: run_defs db_fails_3 input_defs)
  then have c: "Confirmed \<notin> set (run_statuses env_failed_unpublished job0 world0)" by simp
  note t = published_statuses_follow_lifecycle
  from t [of env_ok job0 world0] n1 s1
  have 1: "run_statuses env_ok job0 world0 = [Pending, Routing, Building, Submitted, Confirmed]"
    by simp
  from t [of env_swap_fails job0 world0] n2 s2
  have 2: "run_statuses env_swap_fails job0 world0 = [Pending, Routing, Building, Submitted, Failed]"
    by simp
  from t [of env_db_down job0 world0] b
  have 3: "Confirmed \<notin> set (run_statuses env_db_down job0 world0) \<and>
           Failed \<notin> set (run_statuses env_db_down job0 world0)"
    by blast
  from t [of env_failed_unpublished job0 world0] c
  have "subseq (run_statuses env_failed_unpublished job0 world0)
          [Pending, Routing, Building, Submitted, Confirmed] \<or>
        subseq (run_statuses env_failed_unpublished job0 world0)
          [Pending, Routing, Building, Submitted, Failed]"
    by blast
  then have 4: "subseq (run_statuses env_failed_unpublished job0 world0)
     [Pending, Routing, Building, Submitted, Failed]"
    by (simp add: u)
  from n1 n2 s2 1 2 c 4 b1 3 show ?thesis by simp
qed

section \<open>The attempts counter\<close>

text \<open>
  Claim C2, as stated, fails when the event bus rejects a publish in the execution
  block.  In the first run \<^verbatim>\<open>executeSwap\<close> throws and the publish of \<^verbatim>\<open>failed\<close> is
  rejected: \<^verbatim>\<open>publishOrderUpdate\<close> rethrows inside the handler, the write of the status
  \<^verbatim>\<open>failed\<close> is skipped, no \<^verbatim>\<open>failed\<close> event is published, the persisted status stays
  \<^verbatim>\<open>routing\<close> and the counter keeps its value.  In the second run \<^verbatim>\<open>executeSwap\<close>
  returns and the publish of \<^verbatim>\<open>confirmed\<close> is rejected: the handler of the inner
  \<^verbatim>\<open>try\<close> runs, publishes \<^verbatim>\<open>failed\<close> and increments the counter although the swap
  did not fail.
\<close>

theorem attempts_claim_fails_on_publish_failure:
  "swap_outcome env_failed_unpublished job0 = Some (Inl (Error ''Error: swap rejected'')) \<and>
   run_statuses env_failed_unpublished job0 world0 = [Pending, Routing, Building, Submitted] \<and>
   attempts_of (snd (worker env_failed_unpublished job0 world0)) ''o1'' = attempts_of world0 ''o1'' \<and>
   map_option status (orders_tbl (snd (worker env_failed_unpublished job0 world0)) ''o1'')
     = Some (Some Routing) \<and>
   swap_outcome env_confirmed_unpublished job0 =
     Some (Inr \<lparr>txId = Some ''MOCK-0'', executedOutBn = Some 994900, res_dex = Mock,
                simulated = True\<rparr>) \<and>
   run_statuses env_confirmed_unpublished job0 world0 =
     [Pending, Routing, Building, Submitted, Failed] \<and>
   attempts_of (snd (worker env_confirmed_unpublished job0 world0)) ''o1''
     = attempts_of world0 ''o1'' + 1"
proof -
  have 1: "swap_outcome env_failed_unpublished job0 = Some (Inl (Error ''Error: swap rejected''))"
    by (simp add: swap_outcome_def input_defs)
  have 2: "run_statuses env_failed_unpublished job0 world0 = [Pending, Routing, Building, Submitted]"
    unfolding run_statuses_def by (simp add: run_defs db_fails_3 input_defs)
  have 3: "attempts_of (snd (worker env_failed_unpublished job0 world0)) ''o1'' = attempts_of world0 ''o1''"
    by (simp add: run_defs db_fails_3 input_defs attempts_of_def update_status_sql_def
          set_routing_sql_def)
  have 4: "map_option status (orders_tbl (snd (worker env_failed_unpublished job0 world0)) ''o1'')
     = Some (Some Routing)"
    by (simp add: run_defs db_fails_3 input_defs update_status_sql_def set_routing_sql_def)
  have 5: "swap_outcome env_confirmed_unpublished job0 =
     Some (Inr \<lparr>txId = Some ''MOCK-0'', executedOutBn = Some 994900, res_dex = Mock,
                simulated = True\<rparr>)"
    by (simp add: swap_outcome_def input_defs)
  have 6: "run_statuses env_confirmed_unpublished job0 world0 =
     [Pending, Routing, Building, Submitted, Failed]"
    unfolding run_statuses_def by (simp add: run_defs db_fails_3 input_defs)
  have 7: "attempts_of (snd (worker env_confirmed_unpublished job0 world0)) ''o1''
     = attempts_of world0 ''o1'' + 1"
    by (simp add: run_defs db_fails_3 input_defs attempts_of_def update_status_sql_def
          set_routing_sql_def)
  from 1 2 3 4 5 6 7 show ?thesis by simp
qed

text \<open>
  Claim C2, amended.  When \<^verbatim>\<open>executeSwap\<close> throws in a run in which no publish is
  rejected, no persistence call throws and the setup does not throw, and the order has
  a row, the run publishes exactly one
  \<^verbatim>\<open>failed\<close> event, after pending, routing, building and submitted, and leaves the
  row with status \<^verbatim>\<open>failed\<close>, the error text, and the counter one above its value
  before the run.  A run that fails before the execution block and a run that succeeds
  leave the counter as it was, and no run changes it by anything but 0 or 1.
\<close>

theorem attempts_incremented_by_failure_handler_only:
  "(\<forall>err row. no_failures env \<and> swap_outcome env j = Some (Inl err) \<and>
        orders_tbl w (orderId j) = Some row \<longrightarrow>
        run_statuses env j w = [Pending, Routing, Building, Submitted, Failed] \<and>
        (\<exists>row'. orders_tbl (snd (worker env j w)) (orderId j) = Some row' \<and>
           status row' = Some Failed \<and> error row' = Some (String_of err) \<and>
           attempts row' = Some (COALESCE (attempts row) 0 + 1))) \<and>
   (\<forall>e w1. before_execution env j w = (Inl e, w1) \<longrightarrow>
        attempts_of (snd (worker env j w)) (orderId j) = attempts_of w (orderId j)) \<and>
   (\<forall>v. fst (worker env j w) = Inr v \<longrightarrow>
        attempts_of (snd (worker env j w)) (orderId j) = attempts_of w (orderId j)) \<and>
   (attempts_of (snd (worker env j w)) (orderId j) = attempts_of w (orderId j) \<or>
    attempts_of (snd (worker env j w)) (orderId j) = attempts_of w (orderId j) + 1)"
proof (intro conjI allI impI)
  fix err row
  assume h: "no_failures env \<and> swap_outcome env j = Some (Inl err) \<and>
        orders_tbl w (orderId j) = Some row"
  then have nf: "no_failures env" and so: "swap_outcome env j = Some (Inl err)"
    and row: "orders_tbl w (orderId j) = Some row" by simp_all
  from so obtain amountBn q l where a: "amount_in j = Some amountBn"
    and q: "getBestQuote (router env) (quote_params_of env j amountBn) = Inr q"
    and x: "executeSwap (router env) (swap_params_of env j amountBn q) = (Inl err, l)"
    by (rule swap_outcomeD)
  from run_without_failures(2) [OF nf a q x]
  show "run_statuses env j w = [Pending, Routing, Building, Submitted, Failed]"
    by (simp add: run_statuses_def)
  from run_without_failures(3) [OF nf a q x, of w] row
  show "\<exists>row'. orders_tbl (snd (worker env j w)) (orderId j) = Some row' \<and>
           status row' = Some Failed \<and> error row' = Some (String_of err) \<and>
           attempts row' = Some (COALESCE (attempts row) 0 + 1)"
    by (simp add: update_status_sql_def set_routing_sql_def)
next
  fix e w1
  assume b: "before_execution env j w = (Inl e, w1)"
  from summD [OF summ_before_execution b] obtain tr p where
    "effect env (orderId j) w w1 tr 0 p" by blast
  then have "attempts_of w1 (orderId j) = attempts_of w (orderId j)"
    by (simp add: effect_def)
  with worker_after_failed_start [OF b]
  show "attempts_of (snd (worker env j w)) (orderId j) = attempts_of w (orderId j)" by simp
next
  fix v
  assume r: "fst (worker env j w) = Inr v"
  obtain w' where run: "worker env j w = (Inr v, w')" using r by (cases "worker env j w") auto
  from worker_facts [OF run] obtain tr p where "effect env (orderId j) w w' tr 0 p" by blast
  then have "attempts_of w' (orderId j) = attempts_of w (orderId j)"
    by (simp add: effect_def)
  with run show "attempts_of (snd (worker env j w)) (orderId j) = attempts_of w (orderId j)"
    by simp
next
  obtain r w' where run: "worker env j w = (r, w')" by (cases "worker env j w")
  from worker_facts [OF run] obtain tr a p where
    e: "effect env (orderId j) w w' tr a p" and a: "a = 0 \<or> a = 1" by blast
  from e have "attempts_of w' (orderId j) =
      attempts_of w (orderId j) + (if orders_tbl w (orderId j) = None then 0 else a)"
    by (simp add: effect_def)
  with a run
  show "attempts_of (snd (worker env j w)) (orderId j) = attempts_of w (orderId j) \<or>
    attempts_of (snd (worker env j w)) (orderId j) = attempts_of w (orderId j) + 1"
    by auto
qed

theorem attempts_incremented_by_failure_handler_only_witness:
  "no_failures env_swap_fails \<and>
   swap_outcome env_swap_fails job0 = Some (Inl (Error ''Error: swap rejected'')) \<and>
   orders_tbl world0 (orderId job0) = Some row0 \<and>
   run_statuses env_swap_fails job0 world0 = [Pending, Routing, Building, Submitted, Failed] \<and>
   attempts_of world0 ''o1'' = 1 \<and>
   attempts_of (snd (worker env_swap_fails job0 world0)) ''o1'' = 2 \<and>
   fst (worker env_ok job0 world0) = Inr () \<and>
   attempts_of (snd (worker env_ok job0 world0)) ''o1'' = 1 \<and>
   fst (before_execution env_db_down job0 world0) = Inl (Error ''Error: db down'') \<and>
   attempts_of (snd (worker env_db_down job0 world0)) ''o1'' = 1"
proof -
  have n: "no_failures env_swap_fails"
    by (simp add: no_failures_def db_fails_3 env_ok_def env_swap_fails_def)
  have s: "swap_outcome env_swap_fails job0 = Some (Inl (Error ''Error: swap rejected''))"
    by (simp add: swap_outcome_def input_defs)
  have r: "orders_tbl world0 (orderId job0) = Some row0" by (simp add: world0_def job0_def)
  have a0: "attempts_of world0 ''o1'' = 1" by (simp add: attempts_of_def world0_def row0_def)
  have o: "orderId job0 = ''o1''" by (simp add: job0_def)
  have ok: "fst (worker env_ok job0 world0) = Inr ()"
    by (simp add: run_defs db_fails_3 input_defs)
  have b1: "fst (before_execution env_db_down job0 world0) = Inl (Error ''Error: db down'')"
    by (simp add: run_defs db_fails_3 input_defs)
  then have b: "before_execution env_db_down job0 world0 =
             (Inl (Error ''Error: db down''), snd (before_execution env_db_down job0 world0))"
    by (simp add: prod_eq_iff)
  note t = attempts_incremented_by_failure_handler_only
  from t [of env_swap_fails job0 world0] n s r
  have 1: "run_statuses env_swap_fails job0 world0 = [Pending, Routing, Building, Submitted, Failed]"
    and 2: "attempts_of (snd (worker env_swap_fails job0 world0)) ''o1'' = 2"
    by (auto simp: attempts_of_def o row0_def)
  from t [of env_ok job0 world0] ok a0
  have 3: "attempts_of (snd (worker env_ok job0 world0)) ''o1'' = 1" by (simp add: o)
  from t [of env_db_down job0 world0] b a0
  have 4: "attempts_of (snd (worker env_db_down job0 world0)) ''o1'' = 1" by (auto simp: o)
  from n s r 1 a0 2 ok 3 b1 4 show ?thesis by simp
qed

section \<open>Failures of the event bus\<close>

text \<open>
  Claim C5, as stated, fails: \<^verbatim>\<open>publishOrderUpdate\<close> logs and rethrows (line 66 of
  wsManager.ts) and the worker awaits it inside its \<^verbatim>\<open>try\<close> blocks.  With a bus that
  rejects every publish the job fails with the error of the first publish, nothing is
  published, and no query is sent to the database: the table is as before.
\<close>

theorem publish_failure_aborts_job:
  "fst (worker env_bus_down job0 world0) = Inl (Error ''Error: redis down'') \<and>
   orders_tbl (snd (worker env_bus_down job0 world0)) = orders_tbl world0 \<and>
   query_calls (snd (worker env_bus_down job0 world0)) = 0 \<and>
   bus (snd (worker env_bus_down job0 world0)) = []"
  by (simp add: run_defs input_defs)

text \<open>
  Claim C5, amended.  A failure of \<^verbatim>\<open>publishOrderUpdate\<close> fails the job: every run in
  which some publish is rejected ends with the worker throwing.  When the first
  publish, that of \<^verbatim>\<open>pending\<close>, is rejected, the worker throws that error at once,
  with no persistence write and no further publish.
\<close>

theorem publish_failure_fails_job:
  "((\<exists>k. pub_calls w \<le> k \<and> k < pub_calls (snd (worker env j w)) \<and> publish_fails env k \<noteq> None) \<longrightarrow>
      (\<exists>e. fst (worker env j w) = Inl e)) \<and>
   (\<forall>e. publish_fails env (pub_calls w) = Some e \<longrightarrow>
      worker env j w = (Inl e, w\<lparr>pub_calls := Suc (pub_calls w)\<rparr>))"
proof (intro conjI allI impI)
  assume f: "\<exists>k. pub_calls w \<le> k \<and> k < pub_calls (snd (worker env j w)) \<and> publish_fails env k \<noteq> None"
  obtain r w' where run: "worker env j w = (r, w')" by (cases "worker env j w")
  from worker_facts [OF run] obtain tr a p where
    e: "effect env (orderId j) w w' tr a p" and ok: "\<forall>v. r = Inr v \<longrightarrow> p" by blast
  from e have "p \<longleftrightarrow> (\<forall>k. pub_calls w \<le> k \<and> k < pub_calls w' \<longrightarrow> publish_fails env k = None)"
    by (simp add: effect_def)
  with f run have "\<not> p" by auto
  with ok have "\<forall>v. r \<noteq> Inr v" by blast
  then obtain e where "r = Inl e" by (cases r) auto
  with run show "\<exists>e. fst (worker env j w) = Inl e" by simp
next
  fix e
  assume "publish_fails env (pub_calls w) = Some e"
  then show "worker env j w = (Inl e, w\<lparr>pub_calls := Suc (pub_calls w)\<rparr>)"
    by (simp add: worker_def before_execution_def reassert_pending_def publish_eq io_bind_def
          try_catch_def io_throw_def)
qed

theorem publish_failure_fails_job_witness:
  "pub_calls world0 \<le> 4 \<and> 4 < pub_calls (snd (worker env_confirmed_unpublished job0 world0)) \<and>
   publish_fails env_confirmed_unpublished 4 \<noteq> None \<and>
   fst (worker env_confirmed_unpublished job0 world0) = Inl (Error ''Error: redis down'') \<and>
   publish_fails env_bus_down (pub_calls world0) = Some (Error ''Error: redis down'') \<and>
   worker env_bus_down job0 world0 = (Inl (Error ''Error: redis down''), world0\<lparr>pub_calls := 1\<rparr>)"
proof -
  have 1: "pub_calls world0 \<le> 4" by (simp add: world0_def)
  have 2: "4 < pub_calls (snd (worker env_confirmed_unpublished job0 world0))"
    by (simp add: run_defs db_fails_3 input_defs)
  have 3: "publish_fails env_confirmed_unpublished 4 \<noteq> None"
    by (simp add: env_confirmed_unpublished_def)
  have 4: "publish_fails env_bus_down (pub_calls world0) = Some (Error ''Error: redis down'')"
    by (simp add: env_bus_down_def)
  have 0: "pub_calls world0 = 0" by (simp add: world0_def)
  note t = publish_failure_fails_job
  from t [of world0 env_confirmed_unpublished job0] 1 2 3
  obtain e where e: "fst (worker env_confirmed_unpublished job0 world0) = Inl e" by blast
  have "fst (worker env_confirmed_unpublished job0 world0) = Inl (Error ''Error: redis down'')"
    by (simp add: run_defs db_fails_3 input_defs)
  with e have 5: "fst (worker env_confirmed_unpublished job0 world0) = Inl (Error ''Error: redis down'')"
    by simp
  from t [of world0 env_bus_down job0] 4
  have 6: "worker env_bus_down job0 world0 = (Inl (Error ''Error: redis down''), world0\<lparr>pub_calls := 1\<rparr>)"
    by (simp add: 0)
  from 1 2 3 4 5 6 show ?thesis by simp
qed

section \<open>Persistence writes\<close>

text \<open>
  Claim C6, as stated, fails for \<^verbatim>\<open>setRoutingInfo\<close>, whose statement is
  \<^verbatim>\<open>SET routing_info = $2::jsonb\<close>: a key stored before and absent from the new value
  is gone after the call.
\<close>

theorem setRoutingInfo_discards_stored_keys:
  "stored_routing world0 ''o1'' ''estimatedOut'' = Some (JDecimal 5) \<and>
   fst (setRoutingInfo env_ok ''o1'' [''chosen'' \<mapsto> JDex Meteora] world0) = Inr () \<and>
   stored_routing (snd (setRoutingInfo env_ok ''o1'' [''chosen'' \<mapsto> JDex Meteora] world0))
     ''o1'' ''estimatedOut'' = None"
  by (simp add: stored_routing_def setRoutingInfo_def retried_query_eq db_fails_3 set_routing_sql_def
        world0_def row0_def env_ok_def)

text \<open>
  Claim C6, amended.  A call of \<^verbatim>\<open>updateOrderStatus\<close> that returns merges the routing
  data it is given into the stored \<^verbatim>\<open>routing_info\<close> of an existing order: a key of the
  new data has the new value, every other key keeps what was stored.  A call of
  \<^verbatim>\<open>setRoutingInfo\<close> that returns replaces the stored \<^verbatim>\<open>routing_info\<close> by the value it
  is given.
\<close>

theorem routing_info_merged_by_update_replaced_by_set:
  "(\<forall>v w'. updateOrderStatus env oid st opts w = (Inr v, w') \<and> orders_tbl w oid \<noteq> None \<longrightarrow>
      (\<forall>key. stored_routing w' oid key =
         (case COALESCE (routing opts) Map.empty key of
            Some x \<Rightarrow> Some x
          | None \<Rightarrow> stored_routing w oid key))) \<and>
   (\<forall>v w'. setRoutingInfo env oid r w = (Inr v, w') \<and> orders_tbl w oid \<noteq> None \<longrightarrow>
      (\<forall>key. stored_routing w' oid key = r key))"
proof (intro conjI allI impI)
  fix v w' key
  assume "updateOrderStatus env oid st opts w = (Inr v, w') \<and> orders_tbl w oid \<noteq> None"
  then have u: "updateOrderStatus env oid st opts w = (Inr v, w')" and "orders_tbl w oid \<noteq> None"
    by simp_all
  then obtain row where row: "orders_tbl w oid = Some row" by auto
  show "stored_routing w' oid key =
         (case COALESCE (routing opts) Map.empty key of
            Some x \<Rightarrow> Some x
          | None \<Rightarrow> stored_routing w oid key)"
    unfolding stored_routing_def updateOrderStatus_returns [OF u]
    by (cases "routing_info row")
       (simp_all add: row update_status_sql_def jsonb_concat_def map_add_def split: option.splits)
next
  fix v w' key
  assume "setRoutingInfo env oid r w = (Inr v, w') \<and> orders_tbl w oid \<noteq> None"
  then have u: "setRoutingInfo env oid r w = (Inr v, w')" and "orders_tbl w oid \<noteq> None"
    by simp_all
  then obtain row where row: "orders_tbl w oid = Some row" by auto
  show "stored_routing w' oid key = r key"
    unfolding stored_routing_def setRoutingInfo_returns [OF u]
    by (simp add: row set_routing_sql_def)
qed

theorem routing_info_merged_by_update_replaced_by_set_witness:
  "orders_tbl world0 ''o1'' \<noteq> None \<and>
   fst (updateOrderStatus env_ok ''o1'' Confirmed confirm_opts world0) = Inr () \<and>
   stored_routing (snd (updateOrderStatus env_ok ''o1'' Confirmed confirm_opts world0))
     ''o1'' ''estimatedOut'' = Some (JDecimal 5) \<and>
   stored_routing (snd (updateOrderStatus env_ok ''o1'' Confirmed confirm_opts world0))
     ''o1'' ''chosen'' = Some (JDex Meteora) \<and>
   fst (setRoutingInfo env_ok ''o1'' [''chosen'' \<mapsto> JDex Meteora] world0) = Inr () \<and>
   stored_routing (snd (setRoutingInfo env_ok ''o1'' [''chosen'' \<mapsto> JDex Meteora] world0))
     ''o1'' ''chosen'' = Some (JDex Meteora)"
proof -
  have r: "orders_tbl world0 ''o1'' \<noteq> None" by (simp add: world0_def)
  have u1: "fst (updateOrderStatus env_ok ''o1'' Confirmed confirm_opts world0) = Inr ()"
    by (simp add: updateOrderStatus_def retried_query_eq db_fails_3 env_ok_def)
  then have u: "updateOrderStatus env_ok ''o1'' Confirmed confirm_opts world0 =
      (Inr (), snd (updateOrderStatus env_ok ''o1'' Confirmed confirm_opts world0))"
    by (simp add: prod_eq_iff)
  have s1: "fst (setRoutingInfo env_ok ''o1'' [''chosen'' \<mapsto> JDex Meteora] world0) = Inr ()"
    by (simp add: setRoutingInfo_def retried_query_eq db_fails_3 env_ok_def)
  then have s: "setRoutingInfo env_ok ''o1'' [''chosen'' \<mapsto> JDex Meteora] world0 =
      (Inr (), snd (setRoutingInfo env_ok ''o1'' [''chosen'' \<mapsto> JDex Meteora] world0))"
    by (simp add: prod_eq_iff)
  have st: "stored_routing world0 ''o1'' ''estimatedOut'' = Some (JDecimal 5)"
    by (simp add: stored_routing_def world0_def row0_def)
  note t = routing_info_merged_by_update_replaced_by_set
  from t [of env_ok "''o1''" Confirmed confirm_opts world0] u r
  have k: "\<forall>key. stored_routing (snd (updateOrderStatus env_ok ''o1'' Confirmed confirm_opts world0)) ''o1'' key =
         (case COALESCE (routing confirm_opts) Map.empty key of
            Some x \<Rightarrow> Some x
          | None \<Rightarrow> stored_routing world0 ''o1'' key)"
    by blast
  from k [rule_format, of "''estimatedOut''"] st
  have 1: "stored_routing (snd (updateOrderStatus env_ok ''o1'' Confirmed confirm_opts world0))
     ''o1'' ''estimatedOut'' = Some (JDecimal 5)"
    by (simp add: confirm_opts_def)
  from k [rule_format, of "''chosen''"]
  have 2: "stored_routing (snd (updateOrderStatus env_ok ''o1'' Confirmed confirm_opts world0))
     ''o1'' ''chosen'' = Some (JDex Meteora)"
    by (simp add: confirm_opts_def)
  from t [of env_ok "''o1''" Confirmed confirm_opts world0 "[''chosen'' \<mapsto> JDex Meteora]"] s r
  have 3: "stored_routing (snd (setRoutingInfo env_ok ''o1'' [''chosen'' \<mapsto> JDex Meteora] world0))
     ''o1'' ''chosen'' = Some (JDex Meteora)"
    by simp
  from r u1 1 2 s1 3 show ?thesis by simp
qed

text \<open>
  Claim C10.  A call of \<^verbatim>\<open>updateOrderStatus\<close> that returns sets, in the row of an
  existing order, \<^verbatim>\<open>error\<close>, \<^verbatim>\<open>tx_hash\<close> and \<^verbatim>\<open>executed_price\<close> to the options given,
  \<^verbatim>\<open>NULL\<close> for an omitted one, whatever was stored.  So the re-assertion of \<^verbatim>\<open>pending\<close>
  at the head of the worker, which passes no options, clears the error, the
  transaction hash and the executed price of a previous attempt and keeps the attempts
  counter (a \<^verbatim>\<open>NULL\<close> counter reads as 0).
\<close>

theorem updateOrderStatus_overwrites_outcome_columns:
  "(\<forall>v w' row. updateOrderStatus env oid st opts w = (Inr v, w') \<and> orders_tbl w oid = Some row \<longrightarrow>
      orders_tbl w' oid =
        Some (row\<lparr>status := Some st,
                  attempts := Some (COALESCE (attempts row) 0 + COALESCE (attemptsDelta opts) 0),
                  error := opt_error opts,
                  tx_hash := txHash opts,
                  executed_price := executedPrice opts,
                  routing_info :=
                    Some (jsonb_concat (COALESCE (routing_info row) Map.empty)
                            (COALESCE (routing opts) Map.empty))\<rparr>)) \<and>
   (\<forall>v w' row. reassert_pending env j w = (Inr v, w') \<and> orders_tbl w (orderId j) = Some row \<longrightarrow>
      orders_tbl w' (orderId j) =
        Some (row\<lparr>status := Some Pending,
                  attempts := Some (COALESCE (attempts row) 0),
                  error := None,
                  tx_hash := None,
                  executed_price := None,
                  routing_info := Some (COALESCE (routing_info row) Map.empty)\<rparr>))"
proof (intro conjI allI impI)
  fix v w' row
  assume "updateOrderStatus env oid st opts w = (Inr v, w') \<and> orders_tbl w oid = Some row"
  then have u: "updateOrderStatus env oid st opts w = (Inr v, w')"
    and row: "orders_tbl w oid = Some row" by simp_all
  show "orders_tbl w' oid =
        Some (row\<lparr>status := Some st,
                  attempts := Some (COALESCE (attempts row) 0 + COALESCE (attemptsDelta opts) 0),
                  error := opt_error opts,
                  tx_hash := txHash opts,
                  executed_price := executedPrice opts,
                  routing_info :=
                    Some (jsonb_concat (COALESCE (routing_info row) Map.empty)
                            (COALESCE (routing opts) Map.empty))\<rparr>)"
    unfolding updateOrderStatus_returns [OF u] by (simp add: update_status_sql_def row)
next
  fix v w' row
  assume "reassert_pending env j w = (Inr v, w') \<and> orders_tbl w (orderId j) = Some row"
  then have u: "reassert_pending env j w = (Inr v, w')"
    and row: "orders_tbl w (orderId j) = Some row" by simp_all
  show "orders_tbl w' (orderId j) =
        Some (row\<lparr>status := Some Pending,
                  attempts := Some (COALESCE (attempts row) 0),
                  error := None,
                  tx_hash := None,
                  executed_price := None,
                  routing_info := Some (COALESCE (routing_info row) Map.empty)\<rparr>)"
    unfolding reassert_pending_returns [OF u]
    by (simp add: update_status_sql_def row jsonb_concat_def)
qed

theorem updateOrderStatus_overwrites_outcome_columns_witness:
  "orders_tbl world0 (orderId job0) = Some row0 \<and>
   error row0 = Some ''Error: swap rejected'' \<and> tx_hash row0 = Some ''old-sig'' \<and>
   attempts row0 = Some 1 \<and>
   fst (reassert_pending env_ok job0 world0) = Inr () \<and>
   orders_tbl (snd (reassert_pending env_ok job0 world0)) ''o1'' =
     Some \<lparr>status = Some Pending, attempts = Some 1, error = None, tx_hash = None,
           executed_price = None, routing_info = Some [''estimatedOut'' \<mapsto> JDecimal 5]\<rparr> \<and>
   fst (updateOrderStatus env_ok ''o1'' Confirmed confirm_opts world0) = Inr () \<and>
   orders_tbl (snd (updateOrderStatus env_ok ''o1'' Confirmed confirm_opts world0)) ''o1'' =
     Some \<lparr>status = Some Confirmed, attempts = Some 1, error = None, tx_hash = Some ''sig-1'',
           executed_price = Some 994000,
           routing_info = Some [''estimatedOut'' \<mapsto> JDecimal 5, ''chosen'' \<mapsto> JDex Meteora]\<rparr>"
proof -
  have r: "orders_tbl world0 (orderId job0) = Some row0" by (simp add: world0_def job0_def)
  have r': "orders_tbl world0 ''o1'' = Some row0" by (simp add: world0_def)
  have f: "error row0 = Some ''Error: swap rejected''" "tx_hash row0 = Some ''old-sig''"
    "attempts row0 = Some 1"
    by (simp_all add: row0_def)
  have u1: "fst (reassert_pending env_ok job0 world0) = Inr ()"
    by (simp add: reassert_pending_def io_bind_def publish_eq updateOrderStatus_def
          retried_query_eq db_fails_3 env_ok_def)
  then have u: "reassert_pending env_ok job0 world0 =
      (Inr (), snd (reassert_pending env_ok job0 world0))"
    by (simp add: prod_eq_iff)
  have c1: "fst (updateOrderStatus env_ok ''o1'' Confirmed confirm_opts world0) = Inr ()"
    by (simp add: updateOrderStatus_def retried_query_eq db_fails_3 env_ok_def)
  then have c: "updateOrderStatus env_ok ''o1'' Confirmed confirm_opts world0 =
      (Inr (), snd (updateOrderStatus env_ok ''o1'' Confirmed confirm_opts world0))"
    by (simp add: prod_eq_iff)
  note t = updateOrderStatus_overwrites_outcome_columns
  from t [of env_ok "''o1''" Pending no_opts world0 job0] u r
  have "orders_tbl (snd (reassert_pending env_ok job0 world0)) (orderId job0) =
        Some (row0\<lparr>status := Some Pending,
                  attempts := Some (COALESCE (attempts row0) 0),
                  error := None,
                  tx_hash := None,
                  executed_price := None,
                  routing_info := Some (COALESCE (routing_info row0) Map.empty)\<rparr>)"
    by blast
  then have 1: "orders_tbl (snd (reassert_pending env_ok job0 world0)) ''o1'' =
     Some \<lparr>status = Some Pending, attempts = Some 1, error = None, tx_hash = None,
           executed_price = None, routing_info = Some [''estimatedOut'' \<mapsto> JDecimal 5]\<rparr>"
    by (simp add: row0_def job0_def)
  from t [of env_ok "''o1''" Confirmed confirm_opts world0 job0] c r'
  have "orders_tbl (snd (updateOrderStatus env_ok ''o1'' Confirmed confirm_opts world0)) ''o1'' =
        Some (row0\<lparr>status := Some Confirmed,
                  attempts := Some (COALESCE (attempts row0) 0 + COALESCE (attemptsDelta confirm_opts) 0),
                  error := opt_error confirm_opts,
                  tx_hash := txHash confirm_opts,
                  executed_price := executedPrice confirm_opts,
                  routing_info :=
                    Some (jsonb_concat (COALESCE (routing_info row0) Map.empty)
                            (COALESCE (routing confirm_opts) Map.empty))\<rparr>)"
    by blast
  then have 2: "orders_tbl (snd (updateOrderStatus env_ok ''o1'' Confirmed confirm_opts world0)) ''o1'' =
     Some \<lparr>status = Some Confirmed, attempts = Some 1, error = None, tx_hash = Some ''sig-1'',
           executed_price = Some 994000,
           routing_info = Some [''estimatedOut'' \<mapsto> JDecimal 5, ''chosen'' \<mapsto> JDex Meteora]\<rparr>"
    by (simp add: row0_def confirm_opts_def jsonb_concat_def)
  from r f u1 1 c1 2 show ?thesis by simp
qed

end
